theory Spec2Isabelle
  imports Main
begin

section \<open>Strings as the routes use them\<close>

text \<open>
  Identifiers, hashes and signatures are JavaScript strings. They are modelled as
  \<^typ>\<open>string\<close> (a list of 8-bit characters): the strings the routes accept as addresses,
  hashes and signatures are ASCII, and \<open>toLowerCase\<close> is modelled on the ASCII letters
  (every other character is left as it is).
\<close>

definition lower_char :: "char \<Rightarrow> char" where
  "lower_char c =
     (case map_of (zip ''ABCDEFGHIJKLMNOPQRSTUVWXYZ'' ''abcdefghijklmnopqrstuvwxyz'') c of
        None \<Rightarrow> c
      | Some d \<Rightarrow> d)"

definition toLowerCase :: "string \<Rightarrow> string" where
  "toLowerCase s = map lower_char s"

text \<open>\<open>s.startsWith(p)\<close>\<close>

definition startsWith :: "string \<Rightarrow> string \<Rightarrow> bool" where
  "startsWith s p = (take (length p) s = p)"

text \<open>\<open>s.includes(p)\<close>: \<open>p\<close> occurs in \<open>s\<close> as a contiguous substring.\<close>

fun str_includes :: "string \<Rightarrow> string \<Rightarrow> bool" where
  "str_includes [] p = (p = [])"
| "str_includes (c # cs) p = (startsWith (c # cs) p \<or> str_includes cs p)"

text \<open>\<open>s.slice(n)\<close> for a non-negative \<open>n\<close>.\<close>

definition slice_from :: "nat \<Rightarrow> string \<Rightarrow> string" where
  "slice_from n s = drop n s"

text \<open>
  \<open>s.trim()\<close>: white space is removed at both ends. The ASCII white space characters
  (tab, line feed, vertical tab, form feed, carriage return, space) are modelled.
\<close>

definition is_space :: "char \<Rightarrow> bool" where
  "is_space c = (c \<in> set [CHR 0x09, CHR 0x0A, CHR 0x0B, CHR 0x0C, CHR 0x0D, CHR 0x20])"

definition trim :: "string \<Rightarrow> string" where
  "trim s = rev (dropWhile is_space (rev (dropWhile is_space s)))"

section \<open>Data model (lib/types.ts, supabase/schema.sql)\<close>

datatype ProposalKind = create_session | operate | close_session

datatype ProposalStatus = pending | ready | submitted | expired | failed

datatype RoomStatus = room_open | room_closed

text \<open>
  A room row. The fields \<open>id\<close>, \<open>status\<close>, \<open>created_at\<close> and \<open>expires_at\<close> of the source
  carry the prefix \<open>room_\<close> here, since a proposal has fields of the same names.
  Timestamps are milliseconds since the epoch.
\<close>

record Room =
  room_ident :: string
  created_by :: string
  participant_a :: string
  participant_b :: string
  chain_id :: int
  asset_symbol :: string
  room_status :: RoomStatus
  app_session_id :: "string option"
  room_created_at :: int
  room_expires_at :: int

section \<open>lib/relay.ts\<close>

definition normalizeAddress :: "string \<Rightarrow> string" where
  "normalizeAddress v = toLowerCase v"

definition isParticipant :: "Room \<Rightarrow> string \<Rightarrow> bool" where
  "isParticipant room wallet =
     (let target = normalizeAddress wallet
      in normalizeAddress (participant_a room) = target \<or>
         normalizeAddress (participant_b room) = target)"

definition counterpartOf :: "Room \<Rightarrow> string \<Rightarrow> string" where
  "counterpartOf room wallet =
     (let target = normalizeAddress wallet
      in if normalizeAddress (participant_a room) = target
         then participant_b room else participant_a room)"

text \<open>
  A \<open>Record<string, string>\<close> is an association list with unique keys, in insertion
  order; \<open>Object.keys\<close> is \<open>map fst\<close> and \<open>Object.values\<close> is \<open>map snd\<close>.
\<close>

type_synonym signatures = "(string \<times> string) list"

definition calculateSignedWeight :: "Room \<Rightarrow> signatures \<Rightarrow> int" where
  "calculateSignedWeight room sigs =
     (let weight = 0;
          signerAddresses = set (map normalizeAddress (map fst sigs));
          weight = (if normalizeAddress (participant_a room) \<in> signerAddresses
                    then weight + 50 else weight);
          weight = (if normalizeAddress (participant_b room) \<in> signerAddresses
                    then weight + 50 else weight)
      in weight)"

section \<open>Proposals, events and the store\<close>

text \<open>
  An allocation of a payload. The amount is a decimal string in the source, read with
  \<open>BigInt\<close>; the model holds the integer it denotes.
\<close>

record Allocation =
  participant :: string
  asset :: string
  amount :: int

text \<open>
  \<open>payload_json\<close> is a JSON object. The model keeps the two members the code reads
  (\<open>intent\<close>, and \<open>allocations\<close> when it is an array) and the rest of the object
  (definition, session data, version, session id) as one opaque string.
\<close>

record Payload =
  intent :: "string option"
  allocations :: "Allocation list option"
  payload_rest :: string

text \<open>
  \<open>sdk_result_json\<close> when it is not null: the object the caller sent, the object
  \<open>{ error: message }\<close>, or the empty object.
\<close>

datatype SdkResult = SdkObject string | SdkError string | SdkEmpty

text \<open>A proposal row; \<open>id\<close> of the source is \<open>ident\<close>.\<close>

record Proposal =
  ident :: string
  room_id :: string
  kind :: ProposalKind
  payload_json :: Payload
  payload_hash :: string
  required_quorum :: int
  signatures_json :: signatures
  status :: ProposalStatus
  sdk_result_json :: "SdkResult option"
  created_at :: int
  expires_at :: int

datatype EventPayload =
    RoomCreated string int
  | ProposalCreated ProposalKind int
  | ProposalSigned int int ProposalStatus
  | ProposalApplied ProposalKind ProposalStatus SdkResult

record RoomEvent =
  event_ident :: string
  event_room_id :: string
  proposal_id :: "string option"
  actor :: string
  event_type :: string
  event_payload :: EventPayload
  event_created_at :: int

record Store =
  rooms :: "Room list"
  proposals :: "Proposal list"
  events :: "RoomEvent list"

text \<open>A response that is not ok: \<open>apiError(message, status)\<close>, the status defaulting to 400.\<close>

datatype ApiError = ApiError string nat

text \<open>
  What the routes take from outside the repository: \<open>isAddress\<close> and
  \<open>recoverMessageAddress\<close> of the viem library (the recovery either throws, with a
  message, or returns an address).
\<close>

record Ext =
  isAddress :: "string \<Rightarrow> bool"
  recoverMessageAddress :: "string \<Rightarrow> string \<Rightarrow> string + string"

subsection \<open>Store queries (the supabase client calls of the routes)\<close>

text \<open>
  The store is reachable: a call fails only by a constraint of the schema.
  \<open>.select('*').eq('id', i).single()\<close> gives the row, or an error unless exactly one row
  matches; the routes answer that error with status 404 (the message is the one of the
  store; the model writes the fallback message of the route).
\<close>

definition select_room :: "Store \<Rightarrow> string \<Rightarrow> Room option" where
  "select_room s i =
     (case filter (\<lambda>r. room_ident r = i) (rooms s) of [r] \<Rightarrow> Some r | _ \<Rightarrow> None)"

definition select_proposal :: "Store \<Rightarrow> string \<Rightarrow> Proposal option" where
  "select_proposal s i =
     (case filter (\<lambda>p. ident p = i) (proposals s) of [p] \<Rightarrow> Some p | _ \<Rightarrow> None)"

text \<open>\<open>.update(...).eq('id', i)\<close>: every row with that id is changed.\<close>

definition update_proposal :: "Store \<Rightarrow> string \<Rightarrow> (Proposal \<Rightarrow> Proposal) \<Rightarrow> Store" where
  "update_proposal s i f =
     s\<lparr>proposals := map (\<lambda>p. if ident p = i then f p else p) (proposals s)\<rparr>"

definition update_room :: "Store \<Rightarrow> string \<Rightarrow> (Room \<Rightarrow> Room) \<Rightarrow> Store" where
  "update_room s i f =
     s\<lparr>rooms := map (\<lambda>r. if room_ident r = i then f r else r) (rooms s)\<rparr>"

text \<open>Insertion of a room row: the primary key is the constraint that can fail.\<close>

definition insert_room :: "Store \<Rightarrow> Room \<Rightarrow> string + Store" where
  "insert_room s r =
     (if room_ident r \<in> set (map room_ident (rooms s))
      then Inl ''duplicate key value violates unique constraint rooms_pkey''
      else Inr (s\<lparr>rooms := rooms s @ [r]\<rparr>))"

definition ACTIVE_STATUSES :: "ProposalStatus list" where
  "ACTIVE_STATUSES = [pending, ready]"

text \<open>
  The select of the creation route: proposals of the room and kind whose status is
  active, at most one row (\<open>.limit(1)\<close>).
\<close>

definition select_active :: "Store \<Rightarrow> string \<Rightarrow> ProposalKind \<Rightarrow> Proposal list" where
  "select_active s r k =
     take 1 (filter (\<lambda>p. room_id p = r \<and> kind p = k \<and> status p \<in> set ACTIVE_STATUSES)
                    (proposals s))"

text \<open>
  Insertion of a proposal row, with the constraints of schema.sql: the primary key, the
  reference to the room, the partial unique index \<open>proposals_active_kind_unique\<close> on
  (room_id, kind) where the status is pending or ready, and the range of the
  \<open>integer\<close> column \<open>required_quorum\<close>. \<open>Inl\<close> is the error message of the store.
\<close>

definition insert_proposal :: "Store \<Rightarrow> Proposal \<Rightarrow> string + Store" where
  "insert_proposal s p =
     (if ident p \<in> set (map ident (proposals s))
      then Inl ''duplicate key value violates unique constraint proposals_pkey''
      else if room_id p \<notin> set (map room_ident (rooms s))
      then Inl ''insert or update on table proposals violates foreign key constraint''
      else if status p \<in> {pending, ready} \<and>
              (\<exists>q \<in> set (proposals s).
                 room_id q = room_id p \<and> kind q = kind p \<and> status q \<in> {pending, ready})
      then Inl ''duplicate key value violates unique constraint proposals_active_kind_unique''
      else if required_quorum p < - (2 ^ 31) \<or> 2 ^ 31 - 1 < required_quorum p
      then Inl ''value out of range for type integer''
      else Inr (s\<lparr>proposals := proposals s @ [p]\<rparr>))"

definition insert_event :: "Store \<Rightarrow> RoomEvent \<Rightarrow> string + Store" where
  "insert_event s e =
     (if event_ident e \<in> set (map event_ident (events s))
      then Inl ''duplicate key value violates unique constraint events_pkey''
      else if event_room_id e \<notin> set (map room_ident (rooms s))
      then Inl ''insert or update on table events violates foreign key constraint''
      else case proposal_id e of
             None \<Rightarrow> Inr (s\<lparr>events := events s @ [e]\<rparr>)
           | Some i \<Rightarrow>
               if i \<notin> set (map ident (proposals s))
               then Inl ''insert or update on table events violates foreign key constraint''
               else Inr (s\<lparr>events := events s @ [e]\<rparr>))"

text \<open>A string member of a request body is falsy when it is absent or empty.\<close>

definition falsy :: "string option \<Rightarrow> bool" where
  "falsy v = (v = None \<or> v = Some [])"

definition str_of :: "string option \<Rightarrow> string" where
  "str_of v = (case v of None \<Rightarrow> [] | Some x \<Rightarrow> x)"

definition kind_name :: "ProposalKind \<Rightarrow> string" where
  "kind_name k = (case k of create_session \<Rightarrow> ''create_session''
                          | operate \<Rightarrow> ''operate''
                          | close_session \<Rightarrow> ''close_session'')"

definition status_name :: "ProposalStatus \<Rightarrow> string" where
  "status_name t = (case t of pending \<Rightarrow> ''pending'' | ready \<Rightarrow> ''ready''
                            | submitted \<Rightarrow> ''submitted'' | expired \<Rightarrow> ''expired''
                            | failed \<Rightarrow> ''failed'')"

text \<open>
  A JSON number of a request body: \<open>Number.isInteger\<close> holds of \<open>Integral n\<close> only
  (\<open>NonIntegral\<close> is any other value of the member).
\<close>

datatype JsNumber = Integral int | NonIntegral

section \<open>POST /api/rooms (app/api/rooms/route.ts) and lib/constants.ts\<close>

definition SEPOLIA_CHAIN_ID :: int where
  "SEPOLIA_CHAIN_ID = 11155111"

definition ALLOWED_ASSETS :: "string list" where
  "ALLOWED_ASSETS = [''usdc'', ''weth'']"

record RoomBody =
  body_createdBy :: "string option"
  body_participantB :: "string option"
  body_assetSymbol :: "string option"
  body_chainId :: "JsNumber option"

record RoomEnv =
  room_now :: int
  room_ttlDate :: int
  room_uuid :: string
  room_event_uuid :: string

text \<open>
  The route that creates a room. It is the only writer of the participants of a room,
  and it refuses a room whose two participants are one address after normalisation.
\<close>

definition POST_rooms ::
  "Ext \<Rightarrow> RoomEnv \<Rightarrow> Store \<Rightarrow> RoomBody \<Rightarrow> (ApiError + Room) \<times> Store" where
  "POST_rooms ext env s body =
     (if falsy (body_createdBy body) \<or> falsy (body_participantB body) \<or>
         falsy (body_assetSymbol body) \<or>
         body_chainId body = None \<or> body_chainId body = Some (Integral 0)
      then (Inl (ApiError
             ''createdBy, participantB, assetSymbol and chainId are required'' 400), s)
      else if \<not> isAddress ext (str_of (body_createdBy body)) \<or>
              \<not> isAddress ext (str_of (body_participantB body))
      then (Inl (ApiError ''createdBy and participantB must be valid EVM addresses'' 400), s)
      else
        let createdBy = normalizeAddress (str_of (body_createdBy body));
            participantB = normalizeAddress (str_of (body_participantB body));
            assetSymbol = toLowerCase (str_of (body_assetSymbol body))
        in if createdBy = participantB
           then (Inl (ApiError ''Participant must be different from creator'' 400), s)
           else if body_chainId body \<noteq> Some (Integral SEPOLIA_CHAIN_ID)
           then (Inl (ApiError ''Only Sepolia is supported in this demo'' 400), s)
           else if assetSymbol \<notin> set ALLOWED_ASSETS
           then (Inl (ApiError ''Asset must be usdc or weth'' 400), s)
           else
             let room = \<lparr>
                   room_ident = room_uuid env,
                   created_by = createdBy,
                   participant_a = createdBy,
                   participant_b = participantB,
                   chain_id = SEPOLIA_CHAIN_ID,
                   asset_symbol = assetSymbol,
                   room_status = room_open,
                   app_session_id = None,
                   room_created_at = room_now env,
                   room_expires_at = room_ttlDate env \<rparr>
             in case insert_room s room of
                  Inl msg \<Rightarrow> (Inl (ApiError msg 500), s)
                | Inr s1 \<Rightarrow>
                    (case insert_event s1 \<lparr>
                        event_ident = room_event_uuid env,
                        event_room_id = room_ident room,
                        proposal_id = None,
                        actor = createdBy,
                        event_type = ''room_created'',
                        event_payload = RoomCreated assetSymbol SEPOLIA_CHAIN_ID,
                        event_created_at = room_now env \<rparr> of
                       Inl msg \<Rightarrow> (Inl (ApiError msg 500), s1)
                     | Inr s2 \<Rightarrow> (Inr room, s2)))"

section \<open>POST /api/proposals (app/api/proposals/route.ts)\<close>

text \<open>
  The member \<open>payloadJson\<close>: absent or falsy, a truthy value that is not an object, or
  an object.
\<close>

datatype PayloadIn = PayloadMissing | PayloadNotObject | PayloadObject Payload

record CreateBody =
  body_roomId :: "string option"
  body_actor :: "string option"
  body_kind :: "string option"
  body_payloadJson :: PayloadIn
  body_payloadHash :: "string option"
  body_requiredQuorum :: "JsNumber option"

text \<open>
  What a request reads from its environment: the clock, \<open>ttlDate()\<close> and the results of
  \<open>randomUUID()\<close>.
\<close>

record CreateEnv =
  create_now :: int
  create_ttlDate :: int
  create_proposal_uuid :: string
  create_event_uuid :: string

definition isValidKind :: "string \<Rightarrow> ProposalKind option" where
  "isValidKind k =
     (if k = ''create_session'' then Some create_session
      else if k = ''operate'' then Some operate
      else if k = ''close_session'' then Some close_session
      else None)"

definition POST_proposals ::
  "Ext \<Rightarrow> CreateEnv \<Rightarrow> Store \<Rightarrow> CreateBody \<Rightarrow> (ApiError + Proposal) \<times> Store" where
  "POST_proposals ext env s body =
     (if falsy (body_roomId body) \<or> falsy (body_actor body) \<or> falsy (body_kind body) \<or>
         body_payloadJson body = PayloadMissing \<or> falsy (body_payloadHash body) \<or>
         body_requiredQuorum body = None
      then (Inl (ApiError
             ''roomId, actor, kind, payloadJson, payloadHash, requiredQuorum are required'' 400), s)
      else case body_payloadJson body of
        PayloadMissing \<Rightarrow> (Inl (ApiError ''payloadJson must be a JSON object'' 400), s)
      | PayloadNotObject \<Rightarrow> (Inl (ApiError ''payloadJson must be a JSON object'' 400), s)
      | PayloadObject payloadJson \<Rightarrow>
        if \<not> isAddress ext (str_of (body_actor body))
        then (Inl (ApiError ''actor must be a valid EVM address'' 400), s)
        else case body_requiredQuorum body of
          None \<Rightarrow> (Inl (ApiError ''requiredQuorum must be a positive integer'' 400), s)
        | Some NonIntegral \<Rightarrow>
            (Inl (ApiError ''requiredQuorum must be a positive integer'' 400), s)
        | Some (Integral requiredQuorum) \<Rightarrow>
          if requiredQuorum \<le> 0
          then (Inl (ApiError ''requiredQuorum must be a positive integer'' 400), s)
          else case isValidKind (str_of (body_kind body)) of
            None \<Rightarrow> (Inl (ApiError ''Invalid proposal kind'' 400), s)
          | Some k \<Rightarrow>
            if \<not> startsWith (str_of (body_payloadHash body)) ''0x'' \<or>
               length (str_of (body_payloadHash body)) \<noteq> 66
            then (Inl (ApiError ''payloadHash must be a 32-byte hex string'' 400), s)
            else case select_room s (str_of (body_roomId body)) of
              None \<Rightarrow> (Inl (ApiError ''Room not found'' 404), s)
            | Some room \<Rightarrow>
              let actor = normalizeAddress (str_of (body_actor body)) in
              if \<not> isParticipant room actor
              then (Inl (ApiError ''Actor is not a room participant'' 403), s)
              else if length (select_active s (str_of (body_roomId body)) k) > 0
              then (Inl (ApiError
                     (''An active '' @ str_of (body_kind body) @
                      '' proposal already exists in this room'') 400), s)
              else
                let proposal = \<lparr>
                      ident = create_proposal_uuid env,
                      room_id = str_of (body_roomId body),
                      kind = k,
                      payload_json = payloadJson,
                      payload_hash = str_of (body_payloadHash body),
                      required_quorum = requiredQuorum,
                      signatures_json = [],
                      status = pending,
                      sdk_result_json = None,
                      created_at = create_now env,
                      expires_at = create_ttlDate env \<rparr>
                in case insert_proposal s proposal of
                  Inl msg \<Rightarrow> (Inl (ApiError msg 500), s)
                | Inr s1 \<Rightarrow>
                  (case insert_event s1 \<lparr>
                      event_ident = create_event_uuid env,
                      event_room_id = str_of (body_roomId body),
                      proposal_id = Some (ident proposal),
                      actor = actor,
                      event_type = ''proposal_created'',
                      event_payload = ProposalCreated k requiredQuorum,
                      event_created_at = create_now env \<rparr> of
                    Inl msg \<Rightarrow> (Inl (ApiError msg 500), s1)
                  | Inr s2 \<Rightarrow> (Inr proposal, s2)))"

section \<open>POST /api/proposals/[id]/sign\<close>

definition stripWalletQuorumPrefix :: "string \<Rightarrow> string + string" where
  "stripWalletQuorumPrefix signature =
     (let lower = toLowerCase signature
      in if \<not> startsWith lower ''0x'' then Inl ''Signature must start with 0x''
         else if startsWith lower ''0xa1'' then Inr (''0x'' @ slice_from 4 signature)
         else Inr signature)"

text \<open>\<open>Inl\<close> is the message of the error thrown, \<open>Inr ()\<close> the normal return.\<close>

definition assertWalletSignedHash :: "Ext \<Rightarrow> string \<Rightarrow> string \<Rightarrow> string \<Rightarrow> string + unit" where
  "assertWalletSignedHash ext wallet hash quorumSignature =
     (case stripWalletQuorumPrefix quorumSignature of
        Inl msg \<Rightarrow> Inl msg
      | Inr rawSignature \<Rightarrow>
          (case recoverMessageAddress ext hash rawSignature of
             Inl msg \<Rightarrow> Inl msg
           | Inr recovered \<Rightarrow>
               if normalizeAddress recovered \<noteq> normalizeAddress wallet
               then Inl ''Signature does not match wallet''
               else Inr ()))"

text \<open>The test \<open>/^0x[0-9a-fA-F]+$/\<close>.\<close>

definition is_hex_digit :: "char \<Rightarrow> bool" where
  "is_hex_digit c = (c \<in> set ''0123456789abcdefABCDEF'')"

definition is_hex_string :: "string \<Rightarrow> bool" where
  "is_hex_string x =
     (startsWith x ''0x'' \<and> drop 2 x \<noteq> [] \<and> list_all is_hex_digit (drop 2 x))"

record SignBody =
  sign_wallet :: "string option"
  sign_signature :: "string option"

record SignEnv =
  sign_now :: int
  sign_event_uuid :: string

text \<open>
  \<open>signatures[wallet]\<close> is read as a truth value: an absent key and an empty string
  are both falsy. A key that is set keeps its place; a new key goes to the end.
\<close>

definition sig_get :: "signatures \<Rightarrow> string \<Rightarrow> string option" where
  "sig_get sigs k = map_of sigs k"

fun sig_set :: "signatures \<Rightarrow> string \<Rightarrow> string \<Rightarrow> signatures" where
  "sig_set [] k v = [(k, v)]"
| "sig_set ((k', v') # rest) k v =
     (if k' = k then (k, v) # rest else (k', v') # sig_set rest k v)"

definition POST_sign ::
  "Ext \<Rightarrow> SignEnv \<Rightarrow> Store \<Rightarrow> string \<Rightarrow> SignBody \<Rightarrow> (ApiError + Proposal \<times> int) \<times> Store" where
  "POST_sign ext env s i body =
     (if falsy (sign_wallet body) \<or> falsy (sign_signature body)
      then (Inl (ApiError ''wallet and signature are required'' 400), s)
      else if \<not> isAddress ext (str_of (sign_wallet body))
      then (Inl (ApiError ''wallet must be a valid EVM address'' 400), s)
      else if \<not> is_hex_string (str_of (sign_signature body))
      then (Inl (ApiError ''signature must be a hex string'' 400), s)
      else case select_proposal s i of
        None \<Rightarrow> (Inl (ApiError ''Proposal not found'' 404), s)
      | Some proposal \<Rightarrow>
        if status proposal = submitted \<or> status proposal = failed \<or> status proposal = expired
        then (Inl (ApiError
               (''Cannot sign proposal with status '' @ status_name (status proposal)) 400), s)
        else if expires_at proposal < sign_now env
        then (Inl (ApiError ''Proposal expired'' 400),
              update_proposal s (ident proposal) (\<lambda>p. p\<lparr>status := expired\<rparr>))
        else case select_room s (room_id proposal) of
          None \<Rightarrow> (Inl (ApiError ''Room not found'' 404), s)
        | Some room \<Rightarrow>
          let wallet = normalizeAddress (str_of (sign_wallet body)) in
          if \<not> isParticipant room wallet
          then (Inl (ApiError ''Signer is not a room participant'' 403), s)
          else case assertWalletSignedHash ext wallet (payload_hash proposal)
                      (str_of (sign_signature body)) of
            Inl msg \<Rightarrow> (Inl (ApiError msg 500), s)
          | Inr _ \<Rightarrow>
            let signatures = signatures_json proposal;
                signatures = (if falsy (sig_get signatures wallet)
                              then sig_set signatures wallet (str_of (sign_signature body))
                              else signatures);
                signedWeight = calculateSignedWeight room signatures;
                status' = (if signedWeight \<ge> required_quorum proposal then ready else pending);
                s1 = update_proposal s (ident proposal)
                       (\<lambda>p. p\<lparr>signatures_json := signatures, status := status'\<rparr>)
            in case select_proposal s1 (ident proposal) of
              None \<Rightarrow> (Inl (ApiError ''Failed to update proposal'' 500), s1)
            | Some updated \<Rightarrow>
              (case insert_event s1 \<lparr>
                  event_ident = sign_event_uuid env,
                  event_room_id = room_ident room,
                  proposal_id = Some (ident proposal),
                  actor = wallet,
                  event_type = ''proposal_signed'',
                  event_payload = ProposalSigned signedWeight (required_quorum proposal) status',
                  event_created_at = sign_now env \<rparr> of
                Inl msg \<Rightarrow> (Inl (ApiError msg 500), s1)
              | Inr s2 \<Rightarrow> (Inr (updated, signedWeight), s2)))"

section \<open>POST /api/proposals/[id]/submit\<close>

record SubmitBody =
  submit_wallet :: "string option"
  submit_outcome :: "string option"
  submit_sdkResult :: "string option"
  submit_appSessionId :: "string option"
  submit_error :: "string option"

record SubmitEnv =
  submit_now :: int
  submit_event_uuid :: string

definition POST_submit ::
  "Ext \<Rightarrow> SubmitEnv \<Rightarrow> Store \<Rightarrow> string \<Rightarrow> SubmitBody \<Rightarrow> (ApiError + Proposal) \<times> Store" where
  "POST_submit ext env s i body =
     (if falsy (submit_wallet body)
      then (Inl (ApiError ''wallet is required'' 400), s)
      else if \<not> isAddress ext (str_of (submit_wallet body))
      then (Inl (ApiError ''wallet must be a valid EVM address'' 400), s)
      else if \<not> falsy (submit_outcome body) \<and> submit_outcome body \<noteq> Some ''submitted'' \<and>
              submit_outcome body \<noteq> Some ''failed''
      then (Inl (ApiError ''outcome must be submitted or failed'' 400), s)
      else case select_proposal s i of
        None \<Rightarrow> (Inl (ApiError ''Proposal not found'' 404), s)
      | Some proposal \<Rightarrow>
        if expires_at proposal < submit_now env
        then (Inl (ApiError ''Proposal expired'' 400),
              update_proposal s (ident proposal) (\<lambda>p. p\<lparr>status := expired\<rparr>))
        else case select_room s (room_id proposal) of
          None \<Rightarrow> (Inl (ApiError ''Room not found'' 404), s)
        | Some room \<Rightarrow>
          let wallet = normalizeAddress (str_of (submit_wallet body)) in
          if \<not> isParticipant room wallet
          then (Inl (ApiError ''Actor is not a room participant'' 403), s)
          else
            let outcome = (case submit_outcome body of None \<Rightarrow> ''submitted'' | Some x \<Rightarrow> x) in
            if outcome = ''submitted'' \<and> status proposal \<noteq> ready
            then (Inl (ApiError
                   (''Proposal must be ready before submission. Current status: '' @
                    status_name (status proposal)) 400), s)
            else
              let nextStatus = (if outcome = ''submitted'' then submitted else failed);
                  sdkResult = (case submit_sdkResult body of
                                 Some x \<Rightarrow> SdkObject x
                               | None \<Rightarrow> if \<not> falsy (submit_error body)
                                          then SdkError (str_of (submit_error body))
                                          else SdkEmpty);
                  s1 = update_proposal s (ident proposal)
                         (\<lambda>p. p\<lparr>status := nextStatus, sdk_result_json := Some sdkResult\<rparr>)
              in case select_proposal s1 (ident proposal) of
                None \<Rightarrow> (Inl (ApiError ''Failed to update proposal'' 500), s1)
              | Some updated \<Rightarrow>
                let s2 = (if outcome = ''submitted'' \<and> kind proposal = create_session \<and>
                             \<not> falsy (submit_appSessionId body)
                          then update_room s1 (room_ident room)
                                 (\<lambda>r. r\<lparr>app_session_id := submit_appSessionId body\<rparr>)
                          else s1);
                    s3 = (if outcome = ''submitted'' \<and> kind proposal = close_session
                          then update_room s2 (room_ident room)
                                 (\<lambda>r. r\<lparr>room_status := room_closed\<rparr>)
                          else s2)
                in case insert_event s3 \<lparr>
                      event_ident = submit_event_uuid env,
                      event_room_id = room_ident room,
                      proposal_id = Some (ident proposal),
                      actor = wallet,
                      event_type = (if outcome = ''submitted''
                                    then ''proposal_submitted'' else ''proposal_failed''),
                      event_payload = ProposalApplied (kind proposal) nextStatus sdkResult,
                      event_created_at = submit_now env \<rparr> of
                  Inl msg \<Rightarrow> (Inl (ApiError msg 500), s3)
                | Inr s4 \<Rightarrow> (Inr updated, s4))"

section \<open>POST /api/proposals/expire\<close>

record ExpireRequest =
  header_x_cron_secret :: "string option"
  header_authorization :: "string option"

record ExpireEnv =
  CRON_SECRET :: "string option"
  expire_now :: int

definition bearerToken :: "string option \<Rightarrow> string option" where
  "bearerToken authorization =
     (case authorization of
        None \<Rightarrow> None
      | Some a \<Rightarrow> if startsWith (toLowerCase a) ''bearer ''
                  then Some (trim (slice_from (length ''bearer '') a))
                  else None)"

text \<open>
  The condition of the 401 response: \<open>expectedSecret\<close> is truthy (set and not empty),
  and neither the header nor the bearer token is that string.
\<close>

definition unauthorized :: "ExpireEnv \<Rightarrow> ExpireRequest \<Rightarrow> bool" where
  "unauthorized env req =
     (let providedSecret = header_x_cron_secret req;
          token = bearerToken (header_authorization req);
          expectedSecret = CRON_SECRET env
      in \<not> falsy expectedSecret \<and> providedSecret \<noteq> expectedSecret \<and> token \<noteq> expectedSecret)"

definition POST_expire :: "ExpireEnv \<Rightarrow> Store \<Rightarrow> ExpireRequest \<Rightarrow> (ApiError + nat) \<times> Store" where
  "POST_expire env s req =
     (if unauthorized env req
      then (Inl (ApiError ''Unauthorized'' 401), s)
      else
        let hit = (\<lambda>p. status p \<in> set [pending, ready] \<and> expires_at p < expire_now env)
        in (Inr (length (filter hit (proposals s))),
            s\<lparr>proposals := map (\<lambda>p. if hit p then p\<lparr>status := expired\<rparr> else p)
                                 (proposals s)\<rparr>))"

section \<open>The client (components/CosignDemoApp.tsx)\<close>

text \<open>
  A value caught by \<open>catch (error)\<close>: an \<open>Error\<close> object with its message, or another
  value with its \<open>String(error)\<close>.
\<close>

datatype Thrown = ErrorObject string | ThrownValue string

definition thrown_message :: "Thrown \<Rightarrow> string" where
  "thrown_message e = (case e of ErrorObject m \<Rightarrow> m | ThrownValue v \<Rightarrow> v)"

definition isRetryableSubmitError :: "Thrown \<Rightarrow> bool" where
  "isRetryableSubmitError error =
     (let message = thrown_message error;
          lower = toLowerCase message
      in str_includes lower ''not connected'' \<or>
         str_includes lower ''connection closed'' \<or>
         str_includes lower ''socket closed'' \<or>
         str_includes lower ''network error'' \<or>
         str_includes lower ''websocket'' \<or>
         str_includes lower ''ws closed'')"

definition isMissingHomeChannelForDeposit :: "Thrown \<Rightarrow> bool" where
  "isMissingHomeChannelForDeposit error =
     (let message = thrown_message error;
          lower = toLowerCase message
      in str_includes lower ''state.homechannelid is required for packing'' \<or>
         str_includes lower ''no channel exists for asset'' \<or>
         str_includes lower ''missing home channel id'' \<or>
         str_includes lower ''missing_home_channel'')"

text \<open>
  The state of the component that the callbacks read: whether the client of the session
  service exists (\<open>client\<close> is not null), the connected wallet and the active room
  (\<open>None\<close> is null), the allocations of the active session when there is one, and the
  proposals fetched for the room.
\<close>

record ClientState =
  client :: bool
  walletAddress :: "string option"
  activeRoom :: "Room option"
  activeSession_allocations :: "Allocation list option"
  client_proposals :: "Proposal list"

text \<open>
  \<open>createProposal(kind, payloadJson, payloadHash, requiredQuorum = 100)\<close>: the last
  argument is \<open>None\<close> when the caller leaves it out. Without an active room or a wallet
  the callback returns at once and the result is \<open>None\<close>; otherwise the request goes to
  the creation route.
\<close>

definition createProposal ::
  "Ext \<Rightarrow> CreateEnv \<Rightarrow> Store \<Rightarrow> ClientState \<Rightarrow> ProposalKind \<Rightarrow> Payload \<Rightarrow> string \<Rightarrow>
   JsNumber option \<Rightarrow> ((ApiError + Proposal) \<times> Store) option" where
  "createProposal ext env s cs k payloadJson payloadHash requiredQuorum_arg =
     (let requiredQuorum = (case requiredQuorum_arg of None \<Rightarrow> Integral 100 | Some q \<Rightarrow> q)
      in case activeRoom cs of
           None \<Rightarrow> None
         | Some room \<Rightarrow>
             if falsy (walletAddress cs) then None
             else Some (POST_proposals ext env s \<lparr>
                    body_roomId = Some (room_ident room),
                    body_actor = walletAddress cs,
                    body_kind = Some (kind_name k),
                    body_payloadJson = PayloadObject payloadJson,
                    body_payloadHash = Some payloadHash,
                    body_requiredQuorum = Some requiredQuorum \<rparr>))"

text \<open>
  The members of \<open>RPCAppStateIntent\<close> of the nitrolite-compat package, string constants.
\<close>

definition RPCAppStateIntent_Deposit :: string where
  "RPCAppStateIntent_Deposit = ''deposit''"

definition RPCAppStateIntent_Operate :: string where
  "RPCAppStateIntent_Operate = ''operate''"

definition RPCAppStateIntent_Withdraw :: string where
  "RPCAppStateIntent_Withdraw = ''withdraw''"

definition getRoomSessionAllocations :: "ClientState \<Rightarrow> Allocation list" where
  "getRoomSessionAllocations cs =
     (case activeRoom cs of
        None \<Rightarrow> []
      | Some room \<Rightarrow>
      let participantA = normalizeAddress (participant_a room);
          participantB = normalizeAddress (participant_b room);
          byParticipant0 = (Map.empty(participantA \<mapsto> 0 :: int))(participantB \<mapsto> 0);
          fromProposals = (case find (\<lambda>p. status p = submitted) (client_proposals cs) of
                             None \<Rightarrow> None
                           | Some p \<Rightarrow> allocations (payload_json p));
          fallbackFromProposals = (case activeSession_allocations cs of
                                     None \<Rightarrow> fromProposals
                                   | Some al \<Rightarrow> if length al > 0 then Some al else fromProposals);
          sourceAllocations = (case fallbackFromProposals of None \<Rightarrow> [] | Some al \<Rightarrow> al);
          byParticipant =
            fold (\<lambda>allocation m.
                    if toLowerCase (asset allocation) \<noteq> toLowerCase (asset_symbol room) then m
                    else let p = normalizeAddress (participant allocation)
                         in if m p = None then m else m(p \<mapsto> amount allocation))
                 sourceAllocations byParticipant0
      in [\<lparr>participant = participant_a room, asset = asset_symbol room,
            amount = (case byParticipant participantA of None \<Rightarrow> 0 | Some v \<Rightarrow> v)\<rparr>,
          \<lparr>participant = participant_b room, asset = asset_symbol room,
            amount = (case byParticipant participantB of None \<Rightarrow> 0 | Some v \<Rightarrow> v)\<rparr>])"

text \<open>The key \<open>`${normalizeAddress(participant)}::${asset.toLowerCase()}`\<close>.\<close>

definition allocation_key :: "Allocation \<Rightarrow> string" where
  "allocation_key allocation =
     normalizeAddress (participant allocation) @ ''::'' @ toLowerCase (asset allocation)"

text \<open>\<open>new Map(entries)\<close>: of two entries with one key the later one stays.\<close>

definition baseByParticipant :: "ClientState \<Rightarrow> string \<Rightarrow> int option" where
  "baseByParticipant cs =
     map_of (rev (map (\<lambda>allocation. (allocation_key allocation, amount allocation))
                      (getRoomSessionAllocations cs)))"

definition increases :: "ClientState \<Rightarrow> Allocation \<Rightarrow> bool" where
  "increases cs allocation =
     (let currentAmount = (case baseByParticipant cs (allocation_key allocation) of
                             None \<Rightarrow> 0 | Some v \<Rightarrow> v)
      in amount allocation > currentAmount)"

text \<open>
  \<open>activeDepositSubmitter\<close>, on the active proposal of the component (\<open>None\<close> when
  there is none): the participant of the first allocation of the payload that increases.
\<close>

definition activeDepositSubmitter :: "ClientState \<Rightarrow> Proposal option \<Rightarrow> string option" where
  "activeDepositSubmitter cs activeProposal =
     (case activeProposal of
        None \<Rightarrow> None
      | Some p \<Rightarrow>
          if kind p \<noteq> operate then None
          else if intent (payload_json p) \<noteq> Some RPCAppStateIntent_Deposit then None
          else case allocations (payload_json p) of
                 None \<Rightarrow> None
               | Some als \<Rightarrow>
                   (case find (increases cs) als of
                      None \<Rightarrow> None
                    | Some allocation \<Rightarrow> Some (normalizeAddress (participant allocation))))"

definition activeProposalLabel :: "Proposal option \<Rightarrow> string" where
  "activeProposalLabel activeProposal =
     (case activeProposal of
        None \<Rightarrow> ''-''
      | Some p \<Rightarrow>
          if kind p \<noteq> operate then kind_name (kind p)
          else if intent (payload_json p) = Some RPCAppStateIntent_Deposit
          then ''session_deposit''
          else if intent (payload_json p) = Some RPCAppStateIntent_Operate then ''checkout''
          else if intent (payload_json p) = Some RPCAppStateIntent_Withdraw then ''withdraw''
          else ''operate'')"

text \<open>\<open>canSubmitActiveProposal\<close>, which enables the button that starts \<open>submitProposal\<close>.\<close>

definition canSubmitActiveProposal :: "ClientState \<Rightarrow> Proposal option \<Rightarrow> bool" where
  "canSubmitActiveProposal cs activeProposal =
     (case activeProposal of
        None \<Rightarrow> False
      | Some p \<Rightarrow>
          if status p \<noteq> ready then False
          else if falsy (walletAddress cs) then False
          else if activeProposalLabel activeProposal \<noteq> ''session_deposit'' then True
          else case activeDepositSubmitter cs activeProposal of
                 None \<Rightarrow> False
               | Some d \<Rightarrow> d \<noteq> [] \<and> normalizeAddress (str_of (walletAddress cs)) = d)"

subsection \<open>submitProposal\<close>

text \<open>
  What the session service and the network answer during one run of \<open>submitProposal\<close>:
  the call of the session service for the kind of the proposal (\<open>createAppSession\<close>,
  \<open>submitAppState\<close> or \<open>closeAppSession\<close>: it throws, or returns a result and, for a new
  session, its id), \<open>getLatestState\<close> (it throws, or returns a state with its
  \<open>homeChannelId\<close>), the refresh after a successful report (\<open>None\<close> when nothing is
  thrown), and the environments of the two requests to the submit route.
\<close>

record SdkReturn =
  sdk_result :: string
  sdk_appSessionId :: "string option"

record SubmitOracle =
  session_service :: "Thrown + SdkReturn"
  getLatestState :: "Thrown + string option"
  refresh :: "Thrown option"
  env_submitted :: SubmitEnv
  env_failed :: SubmitEnv

datatype ClientAction = SessionServiceCall ProposalKind | GetLatestState string | Report string

definition toUpperCase :: "string \<Rightarrow> string" where
  "toUpperCase s =
     map (\<lambda>c. case map_of (zip ''abcdefghijklmnopqrstuvwxyz'' ''ABCDEFGHIJKLMNOPQRSTUVWXYZ'') c of
                 None \<Rightarrow> c | Some d \<Rightarrow> d) s"

text \<open>
  \<open>ensureWalletCanSubmitSessionDeposit\<close>: the value thrown or the normal return, and the
  call of \<open>getLatestState\<close> when it is made.
\<close>

definition ensureWalletCanSubmitSessionDeposit ::
  "ClientState \<Rightarrow> SubmitOracle \<Rightarrow> string \<Rightarrow> (Thrown + unit) \<times> ClientAction list" where
  "ensureWalletCanSubmitSessionDeposit cs orc assetSymbol =
     (if \<not> client cs \<or> falsy (walletAddress cs)
      then (Inl (ErrorObject ''Connect your wallet before adding funds to checkout.''), [])
      else
        let attempt = (case getLatestState orc of
                         Inl e \<Rightarrow> Inl e
                       | Inr homeChannelId \<Rightarrow>
                           if falsy homeChannelId then Inl (ErrorObject ''missing_home_channel'')
                           else Inr ())
        in (case attempt of
              Inr u \<Rightarrow> Inr u
            | Inl error \<Rightarrow>
                if isRetryableSubmitError error then Inl error
                else Inl (ErrorObject
                       (''This wallet cannot add funds to checkout yet. '' @
                        ''Add funds to your shared wallet first ('' @ toUpperCase assetSymbol @
                        ''), then try again.'')),
            [GetLatestState assetSymbol]))"

text \<open>\<open>Set.add\<close>, the set kept in insertion order.\<close>

definition set_add :: "string list \<Rightarrow> string \<Rightarrow> string list" where
  "set_add xs x = (if x \<in> set xs then xs else xs @ [x])"

text \<open>
  The loop over the allocations of a deposit payload: \<open>positiveParticipants\<close> and
  \<open>positiveDeltas\<close> (participant and asset).
\<close>

definition deposit_scan :: "ClientState \<Rightarrow> Allocation list \<Rightarrow> string list \<times> (string \<times> string) list" where
  "deposit_scan cs als =
     fold (\<lambda>allocation (positiveParticipants, positiveDeltas).
             if increases cs allocation
             then let p = normalizeAddress (participant allocation)
                  in (set_add positiveParticipants p, positiveDeltas @ [(p, asset allocation)])
             else (positiveParticipants, positiveDeltas))
          als ([], [])"

text \<open>
  The block of the deposit intent, in the closure where the active room is \<open>room\<close>: the
  error it throws, or the actions it took. An \<open>allocations\<close> member that is no array
  cannot be iterated.
\<close>

definition deposit_guard ::
  "ClientState \<Rightarrow> Room \<Rightarrow> SubmitOracle \<Rightarrow> Payload \<Rightarrow> (Thrown + unit) \<times> ClientAction list" where
  "deposit_guard cs room orc payload =
     (case allocations payload of
        None \<Rightarrow> (Inl (ErrorObject ''payload.allocations is not iterable''), [])
      | Some als \<Rightarrow>
          (case deposit_scan cs als of
             (positiveParticipants, positiveDeltas) \<Rightarrow>
               if length positiveParticipants = 1 \<and>
                  normalizeAddress (str_of (walletAddress cs)) \<notin> set positiveParticipants
               then (Inl (ErrorObject
                      ''Only the depositing participant should submit this deposit proposal.''), [])
               else case positiveParticipants of
                      [depositor] \<Rightarrow>
                        let depositAsset =
                              (case find (\<lambda>delta. fst delta = depositor) positiveDeltas of
                                 None \<Rightarrow> asset_symbol room
                               | Some delta \<Rightarrow> snd delta)
                        in ensureWalletCanSubmitSessionDeposit cs orc depositAsset
                    | _ \<Rightarrow> (Inr (), [])))"

text \<open>
  What \<open>submitProposal\<close> does before it calls the session service: the block above for
  an operate proposal whose intent is the deposit, nothing for another proposal.
\<close>

definition operate_deposit_block ::
  "ClientState \<Rightarrow> Room \<Rightarrow> SubmitOracle \<Rightarrow> Proposal \<Rightarrow> (Thrown + unit) \<times> ClientAction list" where
  "operate_deposit_block cs room orc proposal =
     (if kind proposal = operate \<and>
         intent (payload_json proposal) = Some RPCAppStateIntent_Deposit
      then deposit_guard cs room orc (payload_json proposal)
      else (Inr (), []))"

text \<open>
  The \<open>try\<close> block: the value thrown or normal completion, the store after the request
  to the submit route, and the actions taken in order.
\<close>

definition submit_try ::
  "Ext \<Rightarrow> ClientState \<Rightarrow> Room \<Rightarrow> SubmitOracle \<Rightarrow> Store \<Rightarrow> Proposal \<Rightarrow>
   (Thrown + unit) \<times> Store \<times> ClientAction list" where
  "submit_try ext cs room orc s proposal =
     (case operate_deposit_block cs room orc proposal of
           (Inl e, acts) \<Rightarrow> (Inl e, s, acts)
         | (Inr _, acts) \<Rightarrow>
             (case session_service orc of
                Inl e \<Rightarrow> (Inl e, s, acts @ [SessionServiceCall (kind proposal)])
              | Inr r \<Rightarrow>
                  let appSessionId = (if kind proposal = create_session
                                      then sdk_appSessionId r else None);
                      acts1 = acts @ [SessionServiceCall (kind proposal), Report ''submitted'']
                  in case POST_submit ext (env_submitted orc) s (ident proposal) \<lparr>
                            submit_wallet = walletAddress cs,
                            submit_outcome = Some ''submitted'',
                            submit_sdkResult = Some (sdk_result r),
                            submit_appSessionId = appSessionId,
                            submit_error = None \<rparr> of
                       (Inl (ApiError msg code), s1) \<Rightarrow> (Inl (ErrorObject msg), s1, acts1)
                     | (Inr updated, s1) \<Rightarrow>
                         (case refresh orc of
                            Some e \<Rightarrow> (Inl e, s1, acts1)
                          | None \<Rightarrow> (Inr (), s1, acts1))))"

text \<open>
  The member \<open>error\<close> of the report of a failure:
  \<open>error instanceof Error ? error.message : 'Submission failed'\<close>.
\<close>

definition reported_error :: "Thrown \<Rightarrow> string" where
  "reported_error e = (case e of ErrorObject m \<Rightarrow> m | ThrownValue v \<Rightarrow> ''Submission failed'')"

text \<open>
  What one run of \<open>submitProposal\<close> leaves: the store, the message given to
  \<open>setSystemMessage\<close> (\<open>None\<close> when it is not called) and the actions taken in order.
\<close>

record SubmitRun =
  run_store :: Store
  run_message :: "string option"
  run_actions :: "ClientAction list"

definition submitProposal ::
  "Ext \<Rightarrow> ClientState \<Rightarrow> SubmitOracle \<Rightarrow> Store \<Rightarrow> Proposal \<Rightarrow> SubmitRun" where
  "submitProposal ext cs orc s proposal =
     (case activeRoom cs of
        None \<Rightarrow> \<lparr>run_store = s, run_message = None, run_actions = []\<rparr>
      | Some room \<Rightarrow>
      if \<not> client cs \<or> falsy (walletAddress cs)
      then \<lparr>run_store = s, run_message = None, run_actions = []\<rparr>
      else
      let signatures = map snd (signatures_json proposal)
      in if length signatures = 0
         then \<lparr>run_store = s, run_message = Some ''No signatures found for this proposal.'',
               run_actions = []\<rparr>
         else case submit_try ext cs room orc s proposal of
           (Inr _, s1, acts) \<Rightarrow>
             \<lparr>run_store = s1, run_message = Some ''Proposal submitted successfully.'',
              run_actions = acts\<rparr>
         | (Inl error, s1, acts) \<Rightarrow>
             let transient = isRetryableSubmitError error;
                 missingHomeChannel = isMissingHomeChannelForDeposit error;
                 recoverable = (transient \<or> missingHomeChannel);
                 s2 = (if \<not> recoverable
                       then snd (POST_submit ext (env_failed orc) s1 (ident proposal) \<lparr>
                              submit_wallet = walletAddress cs,
                              submit_outcome = Some ''failed'',
                              submit_sdkResult = None,
                              submit_appSessionId = None,
                              submit_error = Some (reported_error error) \<rparr>)
                       else s1)
             in \<lparr>run_store = s2,
                 run_message = Some
                   (if transient
                    then ''Connection dropped while applying. This decision is still ready. '' @
                         ''Reconnect and tap Apply Decision again.''
                    else if missingHomeChannel
                    then ''This wallet cannot add funds to checkout yet. Add funds to your '' @
                         ''shared wallet first, then tap Apply Decision again.''
                    else case error of
                           ErrorObject m \<Rightarrow> m
                         | ThrownValue v \<Rightarrow> ''Failed to submit proposal''),
                 run_actions = acts @ (if \<not> recoverable then [Report ''failed''] else [])\<rparr>)"

section \<open>Participants whose allocation increases\<close>

text \<open>
  The participants, normalised, of the allocations of a deposit payload that are above
  the current allocation of the session under the same key.
\<close>

definition increasing_participants :: "ClientState \<Rightarrow> Allocation list \<Rightarrow> string set" where
  "increasing_participants cs als =
     set (map (\<lambda>a. normalizeAddress (participant a)) (filter (increases cs) als))"

section \<open>Constraints of the store\<close>

text \<open>
  The partial unique index \<open>proposals_active_kind_unique\<close> of schema.sql, as a property
  of a store: among the proposals whose status is pending or ready, no two have the same
  room and kind.
\<close>

definition proposals_active_kind_unique :: "Store \<Rightarrow> bool" where
  "proposals_active_kind_unique s =
     distinct (map (\<lambda>p. (room_id p, kind p))
                   (filter (\<lambda>p. status p \<in> {pending, ready}) (proposals s)))"

section \<open>Example data\<close>

definition ex_room :: Room where
  "ex_room = \<lparr>room_ident = ''r1'', created_by = ''0xaa'', participant_a = ''0xaa'',
     participant_b = ''0xbb'', chain_id = 11155111, asset_symbol = ''usdc'',
     room_status = room_open, app_session_id = None, room_created_at = 0,
     room_expires_at = 86400000\<rparr>"

text \<open>A room row whose two participants are one address, written in two ways.\<close>

definition ex_room_same :: Room where
  "ex_room_same = ex_room\<lparr>participant_b := ''0xAA''\<rparr>"

definition ex_payload :: Payload where
  "ex_payload = \<lparr>intent = None, allocations = None, payload_rest = ''{}''\<rparr>"

definition ex_proposal :: Proposal where
  "ex_proposal = \<lparr>ident = ''p1'', room_id = ''r1'', kind = create_session,
     payload_json = ex_payload, payload_hash = ''0x11'', required_quorum = 100,
     signatures_json = [], status = pending, sdk_result_json = None,
     created_at = 0, expires_at = 1000\<rparr>"

definition ex_store :: Store where
  "ex_store = \<lparr>rooms = [ex_room], proposals = [ex_proposal], events = []\<rparr>"

text \<open>
  Stand-ins for the two library functions: an address starts with 0x, and the signer
  recovered from a signature is the signature string itself.
\<close>

definition ex_ext :: Ext where
  "ex_ext = \<lparr>isAddress = (\<lambda>a. startsWith a ''0x''),
              recoverMessageAddress = (\<lambda>hash signature. Inr signature)\<rparr>"

definition ex_hash :: string where
  "ex_hash = ''0x1111111111111111111111111111111111111111111111111111111111111111''"

definition ex_create_body :: CreateBody where
  "ex_create_body = \<lparr>body_roomId = Some ''r1'', body_actor = Some ''0xAA'',
     body_kind = Some ''create_session'', body_payloadJson = PayloadObject ex_payload,
     body_payloadHash = Some ex_hash, body_requiredQuorum = Some (Integral 100)\<rparr>"

definition ex_create_env :: CreateEnv where
  "ex_create_env = \<lparr>create_now = 10, create_ttlDate = 86400010,
     create_proposal_uuid = ''p2'', create_event_uuid = ''e1''\<rparr>"

definition ex_sign_body :: SignBody where
  "ex_sign_body = \<lparr>sign_wallet = Some ''0xAA'', sign_signature = Some ''0xaa''\<rparr>"

text \<open>A store whose proposal was submitted, and a report of a failure for it.\<close>

definition ex_submitted_store :: Store where
  "ex_submitted_store = \<lparr>rooms = [ex_room],
     proposals = [ex_proposal\<lparr>signatures_json := [(''0xaa'', ''0xaa''), (''0xbb'', ''0xbb'')],
                              status := submitted,
                              sdk_result_json := Some (SdkObject ''{}'')\<rparr>],
     events = []\<rparr>"

definition ex_failed_body :: SubmitBody where
  "ex_failed_body = \<lparr>submit_wallet = Some ''0xaa'', submit_outcome = Some ''failed'',
     submit_sdkResult = None, submit_appSessionId = None, submit_error = Some ''boom''\<rparr>"

text \<open>A store with the room and no proposal, and the client of participant A.\<close>

definition ex_empty_store :: Store where
  "ex_empty_store = \<lparr>rooms = [ex_room], proposals = [], events = []\<rparr>"

definition ex_client :: ClientState where
  "ex_client = \<lparr>client = True, walletAddress = Some ''0xAA'', activeRoom = Some ex_room,
     activeSession_allocations = None, client_proposals = []\<rparr>"

text \<open>
  A ready deposit proposal of the room with the given allocations, the store that holds
  it, the client of a wallet (the session holds 3 for participant A and 4 for
  participant B), and the answers of the session service and the network: the session
  service answers as given, the wallet has a home channel, the refresh succeeds.
\<close>

definition ex_alloc :: "string \<Rightarrow> int \<Rightarrow> Allocation" where
  "ex_alloc who n = \<lparr>participant = who, asset = ''usdc'', amount = n\<rparr>"

definition ex_deposit_proposal :: "Allocation list \<Rightarrow> Proposal" where
  "ex_deposit_proposal als = \<lparr>ident = ''p1'', room_id = ''r1'', kind = operate,
     payload_json = \<lparr>intent = Some ''deposit'', allocations = Some als, payload_rest = ''{}''\<rparr>,
     payload_hash = ''0x11'', required_quorum = 100,
     signatures_json = [(''0xaa'', ''0xaa''), (''0xbb'', ''0xbb'')], status = ready,
     sdk_result_json = None, created_at = 0, expires_at = 1000\<rparr>"

definition ex_deposit_store :: "Allocation list \<Rightarrow> Store" where
  "ex_deposit_store als = \<lparr>rooms = [ex_room], proposals = [ex_deposit_proposal als], events = []\<rparr>"

definition ex_deposit_client :: "string \<Rightarrow> Allocation list \<Rightarrow> ClientState" where
  "ex_deposit_client wallet als = \<lparr>client = True, walletAddress = Some wallet,
     activeRoom = Some ex_room,
     activeSession_allocations = Some [ex_alloc ''0xAA'' 3, ex_alloc ''0xbb'' 4],
     client_proposals = [ex_deposit_proposal als]\<rparr>"

definition ex_oracle :: "Thrown + SdkReturn \<Rightarrow> SubmitOracle" where
  "ex_oracle answer = \<lparr>session_service = answer, getLatestState = Inr (Some ''0xc1''),
     refresh = None, env_submitted = \<lparr>submit_now = 10, submit_event_uuid = ''e1''\<rparr>,
     env_failed = \<lparr>submit_now = 20, submit_event_uuid = ''e2''\<rparr>\<rparr>"

text \<open>A request for a room of the two addresses.\<close>

definition ex_room_body :: RoomBody where
  "ex_room_body = \<lparr>body_createdBy = Some ''0xAA'', body_participantB = Some ''0xbb'',
     body_assetSymbol = Some ''USDC'', body_chainId = Some (Integral 11155111)\<rparr>"

definition ex_room_env :: RoomEnv where
  "ex_room_env = \<lparr>room_now = 0, room_ttlDate = 86400000, room_uuid = ''r1'',
     room_event_uuid = ''e0''\<rparr>"
section \<open>Normalisation\<close>

lemma lower_not_upper:
  "d \<in> set ''abcdefghijklmnopqrstuvwxyz'' \<Longrightarrow> d \<notin> set ''ABCDEFGHIJKLMNOPQRSTUVWXYZ''"
  by (elim disjE | simp)+

lemma map_of_zip_None: "d \<notin> set U \<Longrightarrow> map_of (zip U L) d = None"
  by (auto simp: map_of_eq_None_iff dest: set_zip_leftD)

lemma map_of_zip_Some: "map_of (zip U L) c = Some d \<Longrightarrow> d \<in> set L"
  by (auto dest: map_of_SomeD set_zip_rightD)

lemma lower_char_idem: "lower_char (lower_char c) = lower_char c"
proof (cases "map_of (zip ''ABCDEFGHIJKLMNOPQRSTUVWXYZ'' ''abcdefghijklmnopqrstuvwxyz'') c")
  case None
  then show ?thesis unfolding lower_char_def by (simp only: option.case)
next
  case (Some d)
  then have "d \<in> set ''abcdefghijklmnopqrstuvwxyz''"
    by (rule map_of_zip_Some)
  then have "d \<notin> set ''ABCDEFGHIJKLMNOPQRSTUVWXYZ''"
    by (rule lower_not_upper)
  then have "map_of (zip ''ABCDEFGHIJKLMNOPQRSTUVWXYZ'' ''abcdefghijklmnopqrstuvwxyz'') d = None"
    by (rule map_of_zip_None)
  with Some show ?thesis unfolding lower_char_def by (simp only: option.case)
qed

lemma normalizeAddress_idem [simp]:
  "normalizeAddress (normalizeAddress x) = normalizeAddress x"
  by (simp add: normalizeAddress_def toLowerCase_def lower_char_idem)

lemma isParticipant_normalize [simp]:
  "isParticipant r (normalizeAddress w) = isParticipant r w"
  by (simp add: isParticipant_def)

lemma ex_norm [simp]:
  "normalizeAddress ''0xaa'' = ''0xaa''" "normalizeAddress ''0xbb'' = ''0xbb''"
  "normalizeAddress ''0xAA'' = ''0xaa''" "normalizeAddress ''0xcc'' = ''0xcc''"
  by (simp_all add: normalizeAddress_def toLowerCase_def lower_char_def)

section \<open>Signed weight\<close>

lemma weight_cases:
  "calculateSignedWeight r sigs =
     (if normalizeAddress (participant_a r) \<in> normalizeAddress ` fst ` set sigs then 50 else 0) +
     (if normalizeAddress (participant_b r) \<in> normalizeAddress ` fst ` set sigs then 50 else 0)"
  by (simp add: calculateSignedWeight_def Let_def image_image)

lemma in_filtered_keys:
  "normalizeAddress (participant_a r)
     \<in> normalizeAddress ` fst ` set (filter (\<lambda>kv. isParticipant r (fst kv)) sigs)
   \<longleftrightarrow> normalizeAddress (participant_a r) \<in> normalizeAddress ` fst ` set sigs"
  "normalizeAddress (participant_b r)
     \<in> normalizeAddress ` fst ` set (filter (\<lambda>kv. isParticipant r (fst kv)) sigs)
   \<longleftrightarrow> normalizeAddress (participant_b r) \<in> normalizeAddress ` fst ` set sigs"
  by (auto simp: isParticipant_def Let_def)

lemma card_inter_pair:
  "a \<noteq> b \<Longrightarrow>
   int (card (S \<inter> {a, b})) = (if a \<in> S then 1 else 0) + (if b \<in> S then 1 else 0)"
  by (auto simp: Int_insert_right)

lemma keys_sig_set: "fst ` set (sig_set sigs k v) = insert k (fst ` set sigs)"
  by (induction sigs k v rule: sig_set.induct) auto

text \<open>
  The room route stores only rooms whose two participants differ after normalisation
  (the invariant of a room), and appends the room to the store.
\<close>

lemma insert_room_Inr: "insert_room s r = Inr s1 \<Longrightarrow> s1 = s\<lparr>rooms := rooms s @ [r]\<rparr>"
  by (auto simp: insert_room_def split: if_splits)

lemma insert_event_rooms: "insert_event s e = Inr s1 \<Longrightarrow> rooms s1 = rooms s"
  by (auto simp: insert_event_def split: if_splits option.splits)

lemma POST_rooms_distinct_participants:
  assumes "POST_rooms ext env s body = (Inr room, s')"
  shows "normalizeAddress (participant_a room) \<noteq> normalizeAddress (participant_b room)
       \<and> rooms s' = rooms s @ [room]"
  using assms
  by (auto simp: POST_rooms_def Let_def split: if_splits sum.splits
           dest!: insert_room_Inr insert_event_rooms)

lemma POST_rooms_example:
  "\<exists>room s'. POST_rooms ex_ext ex_room_env \<lparr>rooms = [], proposals = [], events = []\<rparr> ex_room_body
                 = (Inr room, s')
              \<and> participant_a room = ''0xaa'' \<and> participant_b room = ''0xbb''
              \<and> asset_symbol room = ''usdc''"
  by (simp add: POST_rooms_def ex_room_env_def ex_room_body_def ex_ext_def falsy_def str_of_def
        startsWith_def SEPOLIA_CHAIN_ID_def ALLOWED_ASSETS_def toLowerCase_def lower_char_def
        insert_room_def insert_event_def Let_def)

text \<open>
  Where the two participants of a room row are one address, one key of that address
  gives the weight 100.
\<close>

lemma signed_weight_coinciding_participants:
  assumes "normalizeAddress (participant_a r) = normalizeAddress (participant_b r)"
      and "normalizeAddress (participant_a r) \<in> normalizeAddress ` fst ` set sigs"
  shows "calculateSignedWeight r sigs = 100"
  using assms unfolding weight_cases by simp

text \<open>
  Claim C3. In a room (its two participants differ after normalisation, as the room
  route guarantees) the signed weight is 50 times the number of distinct normalised keys
  of the signature map that are the normalised participant A or B. For every room row,
  with no condition on its participants: the weight is 0, 50 or 100; the entries whose
  key is no participant can be dropped from the map without changing the weight; and
  setting a key that is no participant leaves the weight as it is.
\<close>

theorem signed_weight_counts_participants:
  "(normalizeAddress (participant_a r) \<noteq> normalizeAddress (participant_b r) \<longrightarrow>
      calculateSignedWeight r sigs =
        50 * int (card (normalizeAddress ` fst ` set sigs \<inter>
                        {normalizeAddress (participant_a r), normalizeAddress (participant_b r)})))
   \<and> calculateSignedWeight r sigs \<in> {0, 50, 100}
   \<and> calculateSignedWeight r sigs =
       calculateSignedWeight r (filter (\<lambda>kv. isParticipant r (fst kv)) sigs)
   \<and> (\<not> isParticipant r k \<longrightarrow>
        calculateSignedWeight r (sig_set sigs k v) = calculateSignedWeight r sigs)"
proof -
  let ?S = "normalizeAddress ` fst ` set sigs"
  have a: "calculateSignedWeight r sigs = 50 * int (card (?S \<inter>
             {normalizeAddress (participant_a r), normalizeAddress (participant_b r)}))"
    if "normalizeAddress (participant_a r) \<noteq> normalizeAddress (participant_b r)"
    unfolding card_inter_pair[OF that] weight_cases by simp
  have b: "calculateSignedWeight r sigs \<in> {0, 50, 100}"
    unfolding weight_cases by simp
  have c: "calculateSignedWeight r sigs =
             calculateSignedWeight r (filter (\<lambda>kv. isParticipant r (fst kv)) sigs)"
    unfolding weight_cases in_filtered_keys by (rule refl)
  have d: "calculateSignedWeight r (sig_set sigs k v) = calculateSignedWeight r sigs"
    if "\<not> isParticipant r k"
  proof -
    from that have "normalizeAddress (participant_a r) \<noteq> normalizeAddress k"
      and "normalizeAddress (participant_b r) \<noteq> normalizeAddress k"
      by (simp_all add: isParticipant_def Let_def)
    then show ?thesis
      unfolding weight_cases keys_sig_set image_insert by simp
  qed
  from a b c d show ?thesis by blast
qed

theorem signed_weight_counts_participants_witness:
  "normalizeAddress (participant_a ex_room) \<noteq> normalizeAddress (participant_b ex_room) \<and>
   \<not> isParticipant ex_room ''0xcc'' \<and>
   calculateSignedWeight ex_room
     [(''0xAA'', ''0x01''), (''0xaa'', ''0x02''), (''0xcc'', ''0x03'')] = 50 \<and>
   calculateSignedWeight ex_room
     (sig_set [(''0xAA'', ''0x01''), (''0xaa'', ''0x02'')] ''0xcc'' ''0x03'') = 50"
  using signed_weight_counts_participants [of ex_room
          "[(''0xAA'', ''0x01''), (''0xaa'', ''0x02''), (''0xcc'', ''0x03'')]" "''0xcc''" "''0x03''"]
        signed_weight_counts_participants [of ex_room
          "[(''0xAA'', ''0x01''), (''0xaa'', ''0x02'')]" "''0xcc''" "''0x03''"]
  by (simp add: ex_room_def isParticipant_def)

section \<open>Participants and counterparts\<close>

text \<open>
  Claim C9, as the code has it. \<open>isParticipant\<close> holds exactly when the normalised
  identifier is the normalised participant A or B. \<open>counterpartOf\<close> is participant B
  when the normalised identifier is the normalised participant A, and participant A
  otherwise: it never fails, and for an identifier that is no participant it returns
  participant A. For a participant of a room with two different participants it
  returns the other participant.
\<close>

theorem participant_and_counterpart:
  "(isParticipant r w \<longleftrightarrow>
      normalizeAddress w \<in> {normalizeAddress (participant_a r), normalizeAddress (participant_b r)})
   \<and> counterpartOf r w =
       (if normalizeAddress w = normalizeAddress (participant_a r)
        then participant_b r else participant_a r)
   \<and> (\<not> isParticipant r w \<longrightarrow> counterpartOf r w = participant_a r)
   \<and> (isParticipant r w \<and>
        normalizeAddress (participant_a r) \<noteq> normalizeAddress (participant_b r) \<longrightarrow>
        isParticipant r (counterpartOf r w) \<and>
        normalizeAddress (counterpartOf r w) \<noteq> normalizeAddress w)"
  by (auto simp: isParticipant_def counterpartOf_def Let_def)

theorem participant_and_counterpart_witness:
  "isParticipant ex_room ''0xAA'' \<and> counterpartOf ex_room ''0xAA'' = ''0xbb'' \<and>
   \<not> isParticipant ex_room ''0xcc'' \<and> counterpartOf ex_room ''0xcc'' = participant_a ex_room"
  using participant_and_counterpart [of ex_room "''0xAA''"]
        participant_and_counterpart [of ex_room "''0xcc''"]
  by (simp add: ex_room_def)

text \<open>
  Claim C9 as stated: \<open>counterpartOf\<close> never returns a participant for an identifier
  that is no participant. It does: for the stranger 0xcc it returns participant A.
\<close>

theorem counterpart_of_stranger_counterexample:
  "\<not> isParticipant ex_room ''0xcc'' \<and> counterpartOf ex_room ''0xcc'' = ''0xaa'' \<and>
   isParticipant ex_room (counterpartOf ex_room ''0xcc'')"
  by (simp add: isParticipant_def counterpartOf_def ex_room_def)

section \<open>Rows of the store\<close>

lemma filter_ident_map:
  assumes "\<And>q. ident (f q) = ident q"
  shows "filter (\<lambda>p. ident p = i) (map (\<lambda>p. if ident p = i then f p else p) ps)
         = map f (filter (\<lambda>p. ident p = i) ps)"
  using assms by (induction ps) auto

lemma select_proposal_update:
  assumes "select_proposal s i = Some p" and "\<And>q. ident (f q) = ident q"
  shows "select_proposal (update_proposal s i f) i = Some (f p)"
proof -
  from assms(1) have "filter (\<lambda>p. ident p = i) (proposals s) = [p]"
    by (auto simp: select_proposal_def split: list.splits)
  then show ?thesis
    by (simp add: select_proposal_def update_proposal_def filter_ident_map[OF assms(2)])
qed

lemma select_proposal_ident: "select_proposal s i = Some p \<Longrightarrow> ident p = i \<and> p \<in> set (proposals s)"
proof -
  assume "select_proposal s i = Some p"
  then have "filter (\<lambda>p. ident p = i) (proposals s) = [p]"
    by (auto simp: select_proposal_def split: list.splits)
  then have "p \<in> set (filter (\<lambda>p. ident p = i) (proposals s))" by simp
  then show ?thesis by simp
qed

lemma update_proposal_simps [simp]:
  "rooms (update_proposal s i f) = rooms s"
  "events (update_proposal s i f) = events s"
  "select_room (update_proposal s i f) = select_room s"
  by (simp_all add: update_proposal_def select_room_def fun_eq_iff)


lemma select_room_ident: "select_room s i = Some r \<Longrightarrow> room_ident r = i \<and> r \<in> set (rooms s)"
proof -
  assume "select_room s i = Some r"
  then have "filter (\<lambda>r. room_ident r = i) (rooms s) = [r]"
    by (auto simp: select_room_def split: list.splits)
  then have "r \<in> set (filter (\<lambda>r. room_ident r = i) (rooms s))" by simp
  then show ?thesis by simp
qed

lemma select_active_nonempty:
  "length (select_active s r k) > 0 \<longleftrightarrow>
     (\<exists>p \<in> set (proposals s). room_id p = r \<and> kind p = k \<and> status p \<in> {pending, ready})"
proof -
  let ?P = "\<lambda>p. room_id p = r \<and> kind p = k \<and> status p \<in> set ACTIVE_STATUSES"
  have "length (take 1 (filter ?P (proposals s))) > 0 \<longleftrightarrow> filter ?P (proposals s) \<noteq> []"
    by (cases "filter ?P (proposals s)") simp_all
  also have "\<dots> \<longleftrightarrow> (\<exists>p \<in> set (proposals s). ?P p)"
    by (auto simp: filter_empty_conv)
  finally show ?thesis by (simp add: select_active_def ACTIVE_STATUSES_def)
qed

lemma isValidKind_kind_name [simp]: "isValidKind (kind_name k) = Some k"
  by (cases k) (simp_all add: isValidKind_def kind_name_def)

lemma kind_name_nonempty [simp]: "kind_name k \<noteq> []"
  by (cases k) (simp_all add: kind_name_def)

lemma active_unique:
  assumes "proposals_active_kind_unique s"
      and "p \<in> set (proposals s)" "status p \<in> {pending, ready}"
      and "q \<in> set (proposals s)" "status q \<in> {pending, ready}"
      and "room_id q = room_id p" "kind q = kind p"
  shows "q = p"
proof -
  let ?act = "filter (\<lambda>p. status p \<in> {pending, ready}) (proposals s)"
  have "inj_on (\<lambda>p. (room_id p, kind p)) (set ?act)"
    using assms(1) unfolding proposals_active_kind_unique_def by (simp only: distinct_map)
  moreover have "p \<in> set ?act" "q \<in> set ?act" using assms by simp_all
  ultimately show ?thesis using assms(6,7) by (auto dest: inj_onD)
qed

lemma no_active_after_terminal:
  assumes "proposals_active_kind_unique s"
      and "p \<in> set (proposals s)" "status p \<in> {pending, ready}"
      and "t \<notin> {pending, ready}"
      and "q \<in> set (proposals (update_proposal s (ident p) (\<lambda>p. p\<lparr>status := t\<rparr>)))"
      and "room_id q = room_id p" "kind q = kind p"
  shows "status q \<notin> {pending, ready}"
proof
  assume act: "status q \<in> {pending, ready}"
  from assms(5) obtain q' where q': "q' \<in> set (proposals s)"
      and q: "q = (if ident q' = ident p then q'\<lparr>status := t\<rparr> else q')"
    by (auto simp: update_proposal_def)
  show False
  proof (cases "ident q' = ident p")
    case True
    with q act assms(4) show False by auto
  next
    case False
    with q have "q = q'" by simp
    with act assms q' have "q' = p" by (intro active_unique[of s p q']) auto
    with False show False by simp
  qed
qed


lemma sig_get_sig_set [simp]: "sig_get (sig_set sigs k v) k = Some v"
  by (induction sigs k v rule: sig_set.induct) (auto simp: sig_get_def)

lemma update_proposal_fixed:
  assumes "select_proposal s i = Some p" and "f p = p"
  shows "update_proposal s i f = s"
proof -
  from assms(1) have one: "filter (\<lambda>p. ident p = i) (proposals s) = [p]"
    by (auto simp: select_proposal_def split: list.splits)
  have "map (\<lambda>q. if ident q = i then f q else q) (proposals s) = proposals s"
  proof (rule map_idI)
    fix q assume q: "q \<in> set (proposals s)"
    show "(if ident q = i then f q else q) = q"
    proof (cases "ident q = i")
      case True
      with q have "q \<in> set (filter (\<lambda>p. ident p = i) (proposals s))" by simp
      with one have "q = p" by simp
      with assms(2) True show ?thesis by simp
    qed simp
  qed
  then show ?thesis by (simp add: update_proposal_def)
qed

lemma select_proposal_events [simp]:
  "select_proposal (s\<lparr>events := es\<rparr>) i = select_proposal s i"
  by (simp add: select_proposal_def)

lemma select_room_events [simp]:
  "select_room (s\<lparr>events := es\<rparr>) i = select_room s i"
  by (simp add: select_room_def)

lemma is_hex_string_nonempty: "is_hex_string x \<Longrightarrow> x \<noteq> []"
  by (auto simp: is_hex_string_def)

text \<open>One successful run of the sign route, spelled out.\<close>

lemma POST_sign_success:
  assumes sel: "select_proposal s i = Some p"
      and st: "status p = pending \<or> status p = ready"
      and time: "\<not> expires_at p < sign_now env"
      and room: "select_room s (room_id p) = Some room"
      and body: "sign_wallet body = Some w" "sign_signature body = Some sg"
      and wf: "w \<noteq> []" "isAddress ext w" "is_hex_string sg"
      and part: "isParticipant room w"
      and valid: "assertWalletSignedHash ext (normalizeAddress w) (payload_hash p) sg = Inr ()"
      and fresh: "sign_event_uuid env \<notin> set (map event_ident (events s))"
      and sigs': "sigs' = (if falsy (sig_get (signatures_json p) (normalizeAddress w))
                          then sig_set (signatures_json p) (normalizeAddress w) sg
                          else signatures_json p)"
      and st': "st' = (if calculateSignedWeight room sigs' \<ge> required_quorum p then ready else pending)"
  shows "\<exists>ev. POST_sign ext env s i body =
           (Inr (p\<lparr>signatures_json := sigs', status := st'\<rparr>, calculateSignedWeight room sigs'),
            (update_proposal s i (\<lambda>p. p\<lparr>signatures_json := sigs', status := st'\<rparr>))
              \<lparr>events := events s @ [ev]\<rparr>)
          \<and> event_ident ev = sign_event_uuid env"
proof -
  let ?f = "\<lambda>p. p\<lparr>signatures_json := sigs', status := st'\<rparr>"
  let ?s1 = "update_proposal s i ?f"
  from sel have id: "ident p = i" and pin: "p \<in> set (proposals s)"
    by (simp_all add: select_proposal_ident)
  have sel1: "select_proposal ?s1 i = Some (?f p)"
    by (rule select_proposal_update[OF sel]) simp
  from room have rin: "room_ident room \<in> set (map room_ident (rooms s))"
    by (auto dest: select_room_ident)
  have pin1: "i \<in> set (map ident (proposals ?s1))"
    using pin id by (force simp: update_proposal_def)
  let ?ev = "\<lparr>event_ident = sign_event_uuid env, event_room_id = room_ident room,
              proposal_id = Some i, actor = normalizeAddress w,
              event_type = ''proposal_signed'',
              event_payload = ProposalSigned (calculateSignedWeight room sigs') (required_quorum p) st',
              event_created_at = sign_now env\<rparr>"
  have ev: "insert_event ?s1 ?ev = Inr (?s1\<lparr>events := events s @ [?ev]\<rparr>)"
    using fresh rin pin1 by (simp add: insert_event_def)
  have sgne: "sg \<noteq> []" using wf(3) by (rule is_hex_string_nonempty)
  have "POST_sign ext env s i body =
           (Inr (?f p, calculateSignedWeight room sigs'), ?s1\<lparr>events := events s @ [?ev]\<rparr>)"
    using sel st time room body wf sgne part valid id sel1 ev
    unfolding sigs' st'
    by (auto simp: POST_sign_def falsy_def str_of_def Let_def)
  then show ?thesis by (intro exI[of _ ?ev]) simp
qed

section \<open>The example store\<close>

lemma ex_select [simp]:
  "select_proposal ex_store ''p1'' = Some ex_proposal"
  "select_room ex_store ''r1'' = Some ex_room"
  by (simp_all add: select_proposal_def select_room_def ex_store_def ex_proposal_def ex_room_def)

lemma ex_participants [simp]:
  "isParticipant ex_room ''0xAA''" "isParticipant ex_room ''0xaa''" "isParticipant ex_room ''0xbb''"
  "\<not> isParticipant ex_room ''0xcc''"
  by (simp_all add: isParticipant_def ex_room_def)

lemma ex_index [simp]: "proposals_active_kind_unique ex_store"
  by (simp add: proposals_active_kind_unique_def ex_store_def)

lemma ex_proposal_fields [simp]:
  "ident ex_proposal = ''p1''" "room_id ex_proposal = ''r1''" "kind ex_proposal = create_session"
  "status ex_proposal = pending" "expires_at ex_proposal = 1000" "payload_hash ex_proposal = ''0x11''"
  "signatures_json ex_proposal = []" "required_quorum ex_proposal = 100"
  by (simp_all add: ex_proposal_def)

lemma ex_store_fields [simp]:
  "proposals ex_store = [ex_proposal]" "rooms ex_store = [ex_room]" "events ex_store = []"
  by (simp_all add: ex_store_def)

lemma ex_ext_fields [simp]:
  "isAddress ex_ext a = startsWith a ''0x''" "recoverMessageAddress ex_ext h sg = Inr sg"
  by (simp_all add: ex_ext_def)

lemma ex_room_fields [simp]:
  "room_ident ex_room = ''r1''" "participant_a ex_room = ''0xaa''"
  "participant_b ex_room = ''0xbb''" "asset_symbol ex_room = ''usdc''"
  by (simp_all add: ex_room_def)


section \<open>Signing after the expiry\<close>

text \<open>
  Claim C7. The proposal with id \<open>i\<close> is pending or ready and its expiry lies before
  the clock of the request. A sign request whose wallet and signature pass the checks of
  their form (whoever the wallet is, whatever the signature signs) is answered with the
  error Proposal expired, and the store it leaves is the old one with the status of that
  proposal set to expired: the row read afterwards is the old row with the new status,
  so its signature map is the old one.
\<close>

theorem sign_after_expiry:
  assumes "select_proposal s i = Some p"
      and "status p = pending \<or> status p = ready"
      and "expires_at p < sign_now env"
      and "\<not> falsy (sign_wallet body)" and "\<not> falsy (sign_signature body)"
      and "isAddress ext (str_of (sign_wallet body))"
      and "is_hex_string (str_of (sign_signature body))"
  shows "fst (POST_sign ext env s i body) = Inl (ApiError ''Proposal expired'' 400)
       \<and> snd (POST_sign ext env s i body) = update_proposal s i (\<lambda>p. p\<lparr>status := expired\<rparr>)
       \<and> select_proposal (snd (POST_sign ext env s i body)) i = Some (p\<lparr>status := expired\<rparr>)
       \<and> signatures_json (p\<lparr>status := expired\<rparr>) = signatures_json p"
proof -
  from assms(1) have id: "ident p = i" by (simp add: select_proposal_ident)
  have run: "POST_sign ext env s i body =
        (Inl (ApiError ''Proposal expired'' 400), update_proposal s i (\<lambda>p. p\<lparr>status := expired\<rparr>))"
    using assms id by (auto simp: POST_sign_def)
  have sel: "select_proposal (update_proposal s i (\<lambda>p. p\<lparr>status := expired\<rparr>)) i = Some (p\<lparr>status := expired\<rparr>)"
    by (rule select_proposal_update[OF assms(1)]) simp
  show ?thesis unfolding run using sel by simp
qed

theorem sign_after_expiry_witness:
  "fst (POST_sign ex_ext \<lparr>sign_now = 2000, sign_event_uuid = ''e1''\<rparr> ex_store ''p1''
          \<lparr>sign_wallet = Some ''0xaa'', sign_signature = Some ''0xaa''\<rparr>)
     = Inl (ApiError ''Proposal expired'' 400)
   \<and> map status (proposals (snd (POST_sign ex_ext \<lparr>sign_now = 2000, sign_event_uuid = ''e1''\<rparr>
          ex_store ''p1'' \<lparr>sign_wallet = Some ''0xaa'', sign_signature = Some ''0xaa''\<rparr>))) = [expired]"
  using sign_after_expiry [of ex_store "''p1''" ex_proposal
          "\<lparr>sign_now = 2000, sign_event_uuid = ''e1''\<rparr>"
          "\<lparr>sign_wallet = Some ''0xaa'', sign_signature = Some ''0xaa''\<rparr>" ex_ext]
  by (simp add: ex_store_def ex_proposal_def ex_ext_def select_proposal_def falsy_def str_of_def
        is_hex_string_def is_hex_digit_def startsWith_def update_proposal_def)


section \<open>One active proposal for a room and kind\<close>

text \<open>
  Claim C1. A creation request that is well formed, by a participant of the room, is
  answered with the error that an active proposal of the kind exists, and leaves the
  store as it is, while a proposal \<open>p\<close> of that room and kind is pending or ready. Once
  the status of \<open>p\<close> is submitted, failed or expired, the same request succeeds: the new
  proposal is appended to the proposals with status pending. The store satisfies its
  unique index, and the two identifiers drawn for the request are new.
\<close>

theorem create_unique_per_room_and_kind:
  assumes body: "body = \<lparr>body_roomId = Some rid, body_actor = Some a,
                    body_kind = Some (kind_name k), body_payloadJson = PayloadObject pl,
                    body_payloadHash = Some h, body_requiredQuorum = Some (Integral q)\<rparr>"
      and wf: "rid \<noteq> []" "a \<noteq> []" "isAddress ext a" "0 < q" "q \<le> 2 ^ 31 - 1"
              "startsWith h ''0x''" "length h = 66"
      and room: "select_room s rid = Some room" "isParticipant room a"
      and earlier: "p \<in> set (proposals s)" "room_id p = rid" "kind p = k"
                   "status p \<in> {pending, ready}"
      and index: "proposals_active_kind_unique s"
      and fresh: "create_proposal_uuid env \<notin> set (map ident (proposals s))"
                 "create_event_uuid env \<notin> set (map event_ident (events s))"
      and terminal: "t \<in> {submitted, failed, expired}"
  shows "POST_proposals ext env s body =
           (Inl (ApiError (''An active '' @ kind_name k @
                           '' proposal already exists in this room'') 400), s)
       \<and> (\<exists>new s'.
            POST_proposals ext env (update_proposal s (ident p) (\<lambda>p. p\<lparr>status := t\<rparr>)) body
              = (Inr new, s')
          \<and> proposals s' =
              proposals (update_proposal s (ident p) (\<lambda>p. p\<lparr>status := t\<rparr>)) @ [new]
          \<and> status new = pending \<and> room_id new = rid \<and> kind new = k)"
proof -
  let ?s = "update_proposal s (ident p) (\<lambda>p. p\<lparr>status := t\<rparr>)"
  have act: "length (select_active s rid k) > 0"
    unfolding select_active_nonempty using earlier by blast
  have hne: "h \<noteq> []" using wf(7) by auto
  have first: "POST_proposals ext env s body =
           (Inl (ApiError (''An active '' @ kind_name k @
                           '' proposal already exists in this room'') 400), s)"
    using wf hne room act unfolding body
    by (simp add: POST_proposals_def falsy_def str_of_def Let_def)
  have t: "t \<notin> {pending, ready}" using terminal by auto
  have none: "status x \<notin> {pending, ready}"
    if "x \<in> set (proposals ?s)" "room_id x = rid" "kind x = k" for x
    using no_active_after_terminal[OF index earlier(1) earlier(4) t, of x] that earlier(2,3)
    by simp
  then have noact: "\<not> length (select_active ?s rid k) > 0"
    unfolding select_active_nonempty by blast
  have ids: "map ident (proposals ?s) = map ident (proposals s)"
    by (simp add: update_proposal_def comp_def)
  from room have rin: "rid \<in> set (map room_ident (rooms s))"
    by (auto dest: select_room_ident)
  let ?new = "\<lparr>ident = create_proposal_uuid env, room_id = rid, kind = k, payload_json = pl,
               payload_hash = h, required_quorum = q, signatures_json = [], status = pending,
               sdk_result_json = None, created_at = create_now env,
               expires_at = create_ttlDate env\<rparr>"
  have ins: "insert_proposal ?s ?new = Inr (?s\<lparr>proposals := proposals ?s @ [?new]\<rparr>)"
    using fresh(1) rin none wf(4,5) unfolding insert_proposal_def ids
    by (auto simp: )
  let ?s1 = "?s\<lparr>proposals := proposals ?s @ [?new]\<rparr>"
  let ?ev = "\<lparr>event_ident = create_event_uuid env, event_room_id = rid,
              proposal_id = Some (create_proposal_uuid env), actor = normalizeAddress a,
              event_type = ''proposal_created'', event_payload = ProposalCreated k q,
              event_created_at = create_now env\<rparr>"
  have ev: "insert_event ?s1 ?ev = Inr (?s1\<lparr>events := events ?s1 @ [?ev]\<rparr>)"
    using fresh(2) rin by (simp add: insert_event_def)
  have second: "POST_proposals ext env ?s body = (Inr ?new, ?s1\<lparr>events := events ?s1 @ [?ev]\<rparr>)"
    using wf hne room noact ins ev unfolding body
    by (simp add: POST_proposals_def falsy_def str_of_def Let_def)
  show ?thesis using first second by simp
qed

theorem create_unique_per_room_and_kind_witness:
  "POST_proposals ex_ext ex_create_env ex_store ex_create_body =
     (Inl (ApiError ''An active create_session proposal already exists in this room'' 400), ex_store)
   \<and> (\<exists>new s'. POST_proposals ex_ext ex_create_env
                   (update_proposal ex_store ''p1'' (\<lambda>p. p\<lparr>status := expired\<rparr>)) ex_create_body
                 = (Inr new, s')
        \<and> proposals s' =
              proposals (update_proposal ex_store ''p1'' (\<lambda>p. p\<lparr>status := expired\<rparr>)) @ [new]
        \<and> status new = pending \<and> room_id new = ''r1'' \<and> kind new = create_session)"
  using create_unique_per_room_and_kind [where body = ex_create_body and rid = "''r1''"
          and a = "''0xAA''" and k = create_session and pl = ex_payload and h = ex_hash
          and q = 100 and ext = ex_ext and s = ex_store and room = ex_room and p = ex_proposal
          and env = ex_create_env and t = expired]
  by (simp add: ex_create_body_def ex_hash_def ex_create_env_def kind_name_def startsWith_def)


section \<open>Signing twice\<close>

text \<open>
  Claim C4. The proposal is pending or ready and not past its expiry at either request;
  the wallet is a participant of its room and both requests carry a signature of that
  wallet over the payload hash. Then the first request and the second request, made on
  the store the first one left, both succeed and return the same proposal and the same
  signed weight; the second leaves the proposals and rooms as the first left them (it
  appends one more event), and the signature stored for the wallet is the one stored
  before the first request if there was one, otherwise that of the first request.
\<close>

theorem sign_twice_same_as_once:
  assumes sel: "select_proposal s i = Some p"
      and st: "status p = pending \<or> status p = ready"
      and time: "\<not> expires_at p < sign_now env1" "\<not> expires_at p < sign_now env2"
      and room: "select_room s (room_id p) = Some room"
      and body1: "sign_wallet body1 = Some w" "sign_signature body1 = Some sg1"
      and body2: "sign_wallet body2 = Some w" "sign_signature body2 = Some sg2"
      and wf: "w \<noteq> []" "isAddress ext w" "is_hex_string sg1" "is_hex_string sg2"
      and part: "isParticipant room w"
      and valid: "assertWalletSignedHash ext (normalizeAddress w) (payload_hash p) sg1 = Inr ()"
                 "assertWalletSignedHash ext (normalizeAddress w) (payload_hash p) sg2 = Inr ()"
      and fresh: "sign_event_uuid env1 \<notin> set (map event_ident (events s))"
                 "sign_event_uuid env2 \<notin> set (map event_ident (events s))"
                 "sign_event_uuid env2 \<noteq> sign_event_uuid env1"
  shows "\<exists>p1 w1 s1 s2.
           POST_sign ext env1 s i body1 = (Inr (p1, w1), s1)
         \<and> POST_sign ext env2 s1 i body2 = (Inr (p1, w1), s2)
         \<and> proposals s2 = proposals s1 \<and> rooms s2 = rooms s1
         \<and> select_proposal s2 i = Some p1
         \<and> (status p1 = pending \<or> status p1 = ready)
         \<and> sig_get (signatures_json p1) (normalizeAddress w) =
             (if falsy (sig_get (signatures_json p) (normalizeAddress w)) then Some sg1
              else sig_get (signatures_json p) (normalizeAddress w))"
proof -
  define sigs' where "sigs' = (if falsy (sig_get (signatures_json p) (normalizeAddress w))
                          then sig_set (signatures_json p) (normalizeAddress w) sg1
                          else signatures_json p)"
  define st' where "st' = (if calculateSignedWeight room sigs' \<ge> required_quorum p then ready else pending)"
  let ?f = "\<lambda>p. p\<lparr>signatures_json := sigs', status := st'\<rparr>"
  let ?p1 = "?f p"
  let ?w1 = "calculateSignedWeight room sigs'"
  from POST_sign_success[OF sel st time(1) room body1 wf(1,2,3) part valid(1) fresh(1) sigs'_def st'_def]
  obtain ev1 where run1: "POST_sign ext env1 s i body1 =
        (Inr (?p1, ?w1), (update_proposal s i ?f)\<lparr>events := events s @ [ev1]\<rparr>)"
     and ev1: "event_ident ev1 = sign_event_uuid env1" by blast
  let ?s1 = "(update_proposal s i ?f)\<lparr>events := events s @ [ev1]\<rparr>"
  have sel1: "select_proposal ?s1 i = Some ?p1"
    using select_proposal_update[OF sel, of ?f] by simp
  have st1: "status ?p1 = pending \<or> status ?p1 = ready" by (simp add: st'_def)
  have room1: "select_room ?s1 (room_id ?p1) = Some room" using room by simp
  have sg1ne: "sg1 \<noteq> []" using wf(3) by (rule is_hex_string_nonempty)
  have kept: "\<not> falsy (sig_get sigs' (normalizeAddress w))"
    using sg1ne by (simp add: sigs'_def falsy_def)
  have sigs2: "sigs' = (if falsy (sig_get (signatures_json ?p1) (normalizeAddress w))
                          then sig_set (signatures_json ?p1) (normalizeAddress w) sg2
                          else signatures_json ?p1)"
    using kept by simp
  have st2: "st' = (if calculateSignedWeight room sigs' \<ge> required_quorum ?p1 then ready else pending)"
    by (simp add: st'_def)
  have fresh2: "sign_event_uuid env2 \<notin> set (map event_ident (events ?s1))"
    using fresh(2,3) ev1 by simp
  have time2: "\<not> expires_at ?p1 < sign_now env2" using time(2) by simp
  have valid2: "assertWalletSignedHash ext (normalizeAddress w) (payload_hash ?p1) sg2 = Inr ()"
    using valid(2) by simp
  from POST_sign_success[OF sel1 st1 time2 room1 body2 wf(1,2,4) part valid2 fresh2 sigs2 st2]
  obtain ev2 where run2: "POST_sign ext env2 ?s1 i body2 =
        (Inr (?f ?p1, ?w1), (update_proposal ?s1 i ?f)\<lparr>events := events ?s1 @ [ev2]\<rparr>)"
    by blast
  have fixp: "?f ?p1 = ?p1" by simp
  have same: "update_proposal ?s1 i ?f = ?s1"
    using update_proposal_fixed[of ?s1 i ?p1 ?f] sel1 by simp
  let ?s2 = "?s1\<lparr>events := events ?s1 @ [ev2]\<rparr>"
  have run2': "POST_sign ext env2 ?s1 i body2 = (Inr (?p1, ?w1), ?s2)"
    using run2 unfolding same fixp .
  have sel2: "select_proposal ?s2 i = Some ?p1" using sel1 by simp
  have got: "sig_get (signatures_json ?p1) (normalizeAddress w) =
             (if falsy (sig_get (signatures_json p) (normalizeAddress w)) then Some sg1
              else sig_get (signatures_json p) (normalizeAddress w))"
    by (simp add: sigs'_def)
  show ?thesis
    apply (rule exI[of _ ?p1], rule exI[of _ ?w1], rule exI[of _ ?s1], rule exI[of _ ?s2])
    using run1 run2' sel2 st1 got by simp
qed

theorem sign_twice_same_as_once_witness:
  "\<exists>p1 w1 s1 s2.
     POST_sign ex_ext \<lparr>sign_now = 10, sign_event_uuid = ''e1''\<rparr> ex_store ''p1'' ex_sign_body
       = (Inr (p1, w1), s1)
   \<and> POST_sign ex_ext \<lparr>sign_now = 20, sign_event_uuid = ''e2''\<rparr> s1 ''p1'' ex_sign_body
       = (Inr (p1, w1), s2)
   \<and> proposals s2 = proposals s1 \<and> rooms s2 = rooms s1
   \<and> select_proposal s2 ''p1'' = Some p1
   \<and> (status p1 = pending \<or> status p1 = ready)
   \<and> sig_get (signatures_json p1) ''0xaa'' = Some ''0xaa''"
  using sign_twice_same_as_once [where s = ex_store and i = "''p1''" and p = ex_proposal
          and ?env1.0 = "\<lparr>sign_now = 10, sign_event_uuid = ''e1''\<rparr>"
          and ?env2.0 = "\<lparr>sign_now = 20, sign_event_uuid = ''e2''\<rparr>"
          and room = ex_room and ?body1.0 = ex_sign_body and ?body2.0 = ex_sign_body
          and w = "''0xAA''" and ?sg1.0 = "''0xaa''" and ?sg2.0 = "''0xaa''" and ext = ex_ext]
  by (simp add: ex_sign_body_def is_hex_string_def is_hex_digit_def startsWith_def
        assertWalletSignedHash_def stripWalletQuorumPrefix_def toLowerCase_def lower_char_def
        sig_get_def falsy_def)

section \<open>Terminal statuses\<close>

text \<open>
  The sign route answers a submitted, failed or expired proposal with an error and writes
  nothing. The sweep leaves such a row as it is. So does the submit route for the outcome
  submitted, before the expiry.
\<close>

lemma sign_keeps_terminal:
  assumes "select_proposal s i = Some p" and "status p \<in> {submitted, failed, expired}"
  shows "snd (POST_sign ext env s i body) = s"
  using assms by (auto simp: POST_sign_def)

lemma expire_keeps_terminal:
  assumes "p \<in> set (proposals s)" and "status p \<in> {submitted, failed, expired}"
  shows "p \<in> set (proposals (snd (POST_expire env s req)))"
  using assms by (auto simp: POST_expire_def Let_def)

lemma submit_submitted_keeps_terminal:
  assumes "select_proposal s i = Some p" and "status p \<in> {submitted, failed, expired}"
      and "\<not> expires_at p < submit_now env"
      and "submit_outcome body = Some ''submitted'' \<or> submit_outcome body = None"
  shows "snd (POST_submit ext env s i body) = s"
proof -
  from assms(2) have nr: "status p \<noteq> ready" by auto
  from assms(4) have out: "(case submit_outcome body of None \<Rightarrow> ''submitted'' | Some x \<Rightarrow> x) = ''submitted''"
    by auto
  show ?thesis
    unfolding POST_submit_def using assms(1,3) nr out
    by (cases "select_room s (room_id p)") (simp_all add: Let_def)
qed

text \<open>
  Claim C2: no operation changes the status of a submitted, failed or expired proposal.
  The submit route does, in two ways. It tests the status only for the outcome submitted,
  so the outcome failed turns a submitted proposal into a failed one; and it tests the
  expiry before anything else and for every status, so any request after the expiry
  turns a submitted proposal into an expired one.
\<close>

theorem submit_route_leaves_terminal_status:
  "map status (proposals ex_submitted_store) = [submitted]
   \<and> map status (proposals (snd (POST_submit ex_ext \<lparr>submit_now = 10, submit_event_uuid = ''e9''\<rparr>
          ex_submitted_store ''p1'' ex_failed_body))) = [failed]
   \<and> map status (proposals (snd (POST_submit ex_ext \<lparr>submit_now = 2000, submit_event_uuid = ''e9''\<rparr>
          ex_submitted_store ''p1'' ex_failed_body))) = [expired]"
  by (simp add: POST_submit_def ex_submitted_store_def ex_failed_body_def falsy_def str_of_def
        startsWith_def select_proposal_def select_room_def update_proposal_def insert_event_def
        ex_room_def isParticipant_def Let_def)

section \<open>The expiry sweep and its secret\<close>

text \<open>
  The bearer token of the header \<open>Bearer secret\<close> is the secret, when the secret has no
  white space at its ends.
\<close>

lemma bearerToken_of_secret:
  assumes "trim secret = secret"
  shows "bearerToken (Some (''Bearer '' @ secret)) = Some secret"
proof -
  have "toLowerCase (''Bearer '' @ secret) = ''bearer '' @ toLowerCase secret"
    by (simp add: toLowerCase_def lower_char_def)
  then have "startsWith (toLowerCase (''Bearer '' @ secret)) ''bearer ''"
    by (simp add: startsWith_def)
  then show ?thesis using assms by (simp add: bearerToken_def slice_from_def)
qed

text \<open>
  Claim C10. The sweep answers Unauthorized exactly when \<open>CRON_SECRET\<close> is set to a
  string that is not empty, the header \<open>x-cron-secret\<close> is not that string and the
  bearer token of the header \<open>authorization\<close> is not that string either; the store is
  then left as it is. With \<open>CRON_SECRET\<close> unset every request runs the sweep: each
  pending or ready proposal whose expiry is before the clock becomes expired, and their
  number is returned.
\<close>

theorem expire_unauthorized_iff:
  "(fst (POST_expire env s req) = Inl (ApiError ''Unauthorized'' 401)
      \<longleftrightarrow> (\<exists>secret. CRON_SECRET env = Some secret \<and> secret \<noteq> [] \<and>
                    header_x_cron_secret req \<noteq> Some secret \<and>
                    bearerToken (header_authorization req) \<noteq> Some secret))
   \<and> (fst (POST_expire env s req) = Inl (ApiError ''Unauthorized'' 401)
        \<longrightarrow> snd (POST_expire env s req) = s)
   \<and> POST_expire (env\<lparr>CRON_SECRET := None\<rparr>) s req =
       (Inr (length (filter (\<lambda>p. status p \<in> {pending, ready} \<and> expires_at p < expire_now env)
                            (proposals s))),
        s\<lparr>proposals := map (\<lambda>p. if status p \<in> {pending, ready} \<and> expires_at p < expire_now env
                                 then p\<lparr>status := expired\<rparr> else p) (proposals s)\<rparr>)"
  by (auto simp: POST_expire_def unauthorized_def falsy_def Let_def)

theorem expire_unauthorized_iff_witness:
  "fst (POST_expire \<lparr>CRON_SECRET = Some ''s3'', expire_now = 2000\<rparr> ex_store
          \<lparr>header_x_cron_secret = None, header_authorization = Some ''Bearer x''\<rparr>)
     = Inl (ApiError ''Unauthorized'' 401)
   \<and> snd (POST_expire \<lparr>CRON_SECRET = Some ''s3'', expire_now = 2000\<rparr> ex_store
          \<lparr>header_x_cron_secret = None, header_authorization = Some ''Bearer x''\<rparr>) = ex_store
   \<and> fst (POST_expire \<lparr>CRON_SECRET = Some ''s3'', expire_now = 2000\<rparr> ex_store
          \<lparr>header_x_cron_secret = None, header_authorization = Some ''BEARER  s3 ''\<rparr>) = Inr 1
   \<and> fst (POST_expire \<lparr>CRON_SECRET = None, expire_now = 2000\<rparr> ex_store
          \<lparr>header_x_cron_secret = None, header_authorization = None\<rparr>) = Inr 1"
  using expire_unauthorized_iff [of "\<lparr>CRON_SECRET = Some ''s3'', expire_now = 2000\<rparr>" ex_store
          "\<lparr>header_x_cron_secret = None, header_authorization = Some ''Bearer x''\<rparr>"]
        expire_unauthorized_iff [of "\<lparr>CRON_SECRET = Some ''s3'', expire_now = 2000\<rparr>" ex_store
          "\<lparr>header_x_cron_secret = None, header_authorization = Some ''BEARER  s3 ''\<rparr>"]
        expire_unauthorized_iff [of "\<lparr>CRON_SECRET = None, expire_now = 2000\<rparr>" ex_store
          "\<lparr>header_x_cron_secret = None, header_authorization = None\<rparr>"]
  by (simp add: bearerToken_def startsWith_def toLowerCase_def lower_char_def trim_def
        is_space_def slice_from_def POST_expire_def unauthorized_def falsy_def)

section \<open>The required quorum of a new proposal\<close>

lemma insert_proposal_Inr:
  "insert_proposal s p = Inr s1 \<Longrightarrow> s1 = s\<lparr>proposals := proposals s @ [p]\<rparr>"
  by (auto simp: insert_proposal_def split: if_splits)

lemma insert_event_Inr:
  "insert_event s e = Inr s1 \<Longrightarrow> s1 = s\<lparr>events := events s @ [e]\<rparr>"
  by (auto simp: insert_event_def split: if_splits option.splits)

lemma POST_proposals_Inr:
  assumes "POST_proposals ext env s body = (Inr new, s')"
  shows "body_requiredQuorum body = Some (Integral (required_quorum new))
       \<and> 0 < required_quorum new \<and> status new = pending
       \<and> proposals s' = proposals s @ [new]"
proof (cases "body_payloadJson body")
  case PayloadMissing
  with assms show ?thesis by (simp add: POST_proposals_def)
next
  case PayloadNotObject
  with assms show ?thesis by (simp add: POST_proposals_def split: if_splits)
next
  case (PayloadObject pl)
  show ?thesis
  proof (cases "body_requiredQuorum body")
    case None
    with assms show ?thesis by (simp add: POST_proposals_def)
  next
    case (Some n)
    show ?thesis
    proof (cases n)
      case NonIntegral
      with assms PayloadObject Some show ?thesis
        by (simp add: POST_proposals_def split: if_splits)
    next
      case (Integral q)
      show ?thesis
      proof (cases "isValidKind (str_of (body_kind body))")
        case None
        with assms PayloadObject Some Integral show ?thesis
          by (simp add: POST_proposals_def split: if_splits)
      next
        case (Some k)
        note k = this
        show ?thesis
        proof (cases "select_room s (str_of (body_roomId body))")
          case None
          with assms PayloadObject \<open>body_requiredQuorum body = Some n\<close> Integral k show ?thesis
            by (simp add: POST_proposals_def split: if_splits)
        next
          case (Some room)
          with assms PayloadObject \<open>body_requiredQuorum body = Some n\<close> Integral k show ?thesis
            by (auto simp: POST_proposals_def Let_def split: if_splits sum.splits
                     dest!: insert_proposal_Inr insert_event_Inr)
        qed
      qed
    qed
  qed
qed

text \<open>
  Claim C8, as the code has it. The proposal that the creation route stores carries the
  required quorum of the request, which is a positive integer (not 100 only). The
  client's \<open>createProposal\<close> sends 100 when its caller gives no quorum. In a room with
  two different participants, the signature of a participant whose address is not yet a
  key of the map adds exactly 50 to the signed weight.
\<close>

theorem created_quorum_is_requested:
  "(POST_proposals ext env s body = (Inr new, s') \<longrightarrow>
      body_requiredQuorum body = Some (Integral (required_quorum new)) \<and>
      0 < required_quorum new \<and> proposals s' = proposals s @ [new])
   \<and> (createProposal ext env s cs k pl h None = Some (Inr new, s') \<longrightarrow>
        required_quorum new = 100)
   \<and> (normalizeAddress (participant_a r) \<noteq> normalizeAddress (participant_b r) \<and>
        isParticipant r w \<and> normalizeAddress w \<notin> normalizeAddress ` fst ` set sigs \<longrightarrow>
        calculateSignedWeight r (sig_set sigs (normalizeAddress w) sg) =
          calculateSignedWeight r sigs + 50)"
proof (intro conjI impI)
  assume "POST_proposals ext env s body = (Inr new, s')"
  from POST_proposals_Inr[OF this]
  show "body_requiredQuorum body = Some (Integral (required_quorum new))"
    "0 < required_quorum new" "proposals s' = proposals s @ [new]" by simp_all
next
  assume "createProposal ext env s cs k pl h None = Some (Inr new, s')"
  then show "required_quorum new = 100"
    by (auto simp: createProposal_def split: option.splits if_splits dest: POST_proposals_Inr)
next
  assume a: "normalizeAddress (participant_a r) \<noteq> normalizeAddress (participant_b r) \<and>
        isParticipant r w \<and> normalizeAddress w \<notin> normalizeAddress ` fst ` set sigs"
  let ?S = "normalizeAddress ` fst ` set sigs"
  from a have nk: "normalizeAddress w \<notin> ?S"
    and ab: "normalizeAddress (participant_a r) \<noteq> normalizeAddress (participant_b r)"
    by simp_all
  from a consider "normalizeAddress (participant_a r) = normalizeAddress w"
    | "normalizeAddress (participant_b r) = normalizeAddress w"
    by (auto simp: isParticipant_def Let_def)
  then show "calculateSignedWeight r (sig_set sigs (normalizeAddress w) sg) =
          calculateSignedWeight r sigs + 50"
  proof cases
    case 1
    with ab have "normalizeAddress (participant_b r) \<noteq> normalizeAddress w" by simp
    with 1 nk show ?thesis
      unfolding weight_cases keys_sig_set image_insert normalizeAddress_idem by simp
  next
    case 2
    with ab have "normalizeAddress (participant_a r) \<noteq> normalizeAddress w" by simp
    with 2 nk show ?thesis
      unfolding weight_cases keys_sig_set image_insert normalizeAddress_idem by simp
  qed
qed

theorem created_quorum_is_requested_witness:
  "(\<exists>new s'. createProposal ex_ext ex_create_env ex_empty_store ex_client create_session
                ex_payload ex_hash None = Some (Inr new, s') \<and> required_quorum new = 100
              \<and> proposals s' = [new])
   \<and> calculateSignedWeight ex_room (sig_set [] (normalizeAddress ''0xAA'') ''0x01'') = 50"
proof -
  let ?new = "\<lparr>ident = ''p2'', room_id = ''r1'', kind = create_session,
     payload_json = ex_payload, payload_hash = ex_hash, required_quorum = 100,
     signatures_json = [], status = pending, sdk_result_json = None,
     created_at = 10, expires_at = 86400010\<rparr>"
  let ?ev = "\<lparr>event_ident = ''e1'', event_room_id = ''r1'', proposal_id = Some ''p2'',
     actor = ''0xaa'', event_type = ''proposal_created'',
     event_payload = ProposalCreated create_session 100, event_created_at = 10\<rparr>"
  let ?s' = "\<lparr>rooms = [ex_room], proposals = [?new], events = [?ev]\<rparr>"
  have run: "createProposal ex_ext ex_create_env ex_empty_store ex_client create_session
                ex_payload ex_hash None = Some (Inr ?new, ?s')"
    by (simp add: createProposal_def POST_proposals_def ex_client_def ex_create_env_def
        ex_empty_store_def ex_hash_def falsy_def str_of_def startsWith_def kind_name_def
        isValidKind_def select_room_def select_active_def insert_proposal_def insert_event_def
        Let_def)
  have run': "POST_proposals ex_ext ex_create_env ex_empty_store
                \<lparr>body_roomId = Some ''r1'', body_actor = Some ''0xAA'',
                 body_kind = Some ''create_session'', body_payloadJson = PayloadObject ex_payload,
                 body_payloadHash = Some ex_hash, body_requiredQuorum = Some (Integral 100)\<rparr>
                = (Inr ?new, ?s')"
    using run by (simp add: createProposal_def ex_client_def kind_name_def falsy_def)
  show ?thesis
    using created_quorum_is_requested [where ext = ex_ext and env = ex_create_env
            and s = ex_empty_store and cs = ex_client and k = create_session and pl = ex_payload
            and h = ex_hash and new = ?new and s' = ?s' and r = ex_room and w = "''0xAA''"
            and sigs = "[]" and sg = "''0x01''"
            and body = "\<lparr>body_roomId = Some ''r1'', body_actor = Some ''0xAA'',
                 body_kind = Some ''create_session'', body_payloadJson = PayloadObject ex_payload,
                 body_payloadHash = Some ex_hash, body_requiredQuorum = Some (Integral 100)\<rparr>"]
          run run'
    by (simp add: calculateSignedWeight_def)
qed

text \<open>
  Claim C8 as stated: creation never stores a required quorum other than 100. A request
  with the quorum 50 is accepted and stored with 50.
\<close>

theorem requested_quorum_not_100_counterexample:
  "\<exists>new s'. POST_proposals ex_ext ex_create_env ex_empty_store
               (ex_create_body\<lparr>body_requiredQuorum := Some (Integral 50)\<rparr>) = (Inr new, s')
            \<and> proposals s' = [new] \<and> required_quorum new = 50"
  by (simp add: POST_proposals_def ex_create_body_def ex_create_env_def ex_empty_store_def
        ex_hash_def falsy_def str_of_def startsWith_def isValidKind_def select_room_def
        select_active_def insert_proposal_def insert_event_def Let_def)

section \<open>The client's submission\<close>

lemma deposit_fold:
  assumes "fold (\<lambda>allocation (positiveParticipants, positiveDeltas).
             if increases cs allocation
             then let p = normalizeAddress (participant allocation)
                  in (set_add positiveParticipants p, positiveDeltas @ [(p, asset allocation)])
             else (positiveParticipants, positiveDeltas)) als (pp, pd) = (pp', pd')"
  shows "set pp' = set pp \<union> increasing_participants cs als \<and> (distinct pp \<longrightarrow> distinct pp')
       \<and> pd' = pd @ map (\<lambda>a. (normalizeAddress (participant a), asset a))
                        (filter (increases cs) als)"
  using assms
proof (induction als arbitrary: pp pd)
  case Nil
  then show ?case by (simp add: increasing_participants_def)
next
  case (Cons a als)
  show ?case
  proof (cases "increases cs a")
    case True
    with Cons.prems have "fold (\<lambda>allocation (positiveParticipants, positiveDeltas).
             if increases cs allocation
             then let p = normalizeAddress (participant allocation)
                  in (set_add positiveParticipants p, positiveDeltas @ [(p, asset allocation)])
             else (positiveParticipants, positiveDeltas)) als
            (set_add pp (normalizeAddress (participant a)),
             pd @ [(normalizeAddress (participant a), asset a)]) = (pp', pd')"
      by (simp add: Let_def)
    from Cons.IH[OF this] True show ?thesis
      by (auto simp: increasing_participants_def set_add_def)
  next
    case False
    with Cons.prems have "fold (\<lambda>allocation (positiveParticipants, positiveDeltas).
             if increases cs allocation
             then let p = normalizeAddress (participant allocation)
                  in (set_add positiveParticipants p, positiveDeltas @ [(p, asset allocation)])
             else (positiveParticipants, positiveDeltas)) als (pp, pd) = (pp', pd')"
      by simp
    from Cons.IH[OF this] False show ?thesis
      by (auto simp: increasing_participants_def)
  qed
qed

lemma deposit_scan_participants:
  assumes "deposit_scan cs als = (pp, pd)"
  shows "set pp = increasing_participants cs als" and "distinct pp"
    and "length pp = card (increasing_participants cs als)"
    and "pd = map (\<lambda>a. (normalizeAddress (participant a), asset a)) (filter (increases cs) als)"
proof -
  from deposit_fold[OF assms[unfolded deposit_scan_def]]
  show s: "set pp = increasing_participants cs als" and d: "distinct pp"
    and "pd = map (\<lambda>a. (normalizeAddress (participant a), asset a)) (filter (increases cs) als)"
    by simp_all
  from d have "length pp = card (set pp)" by (simp add: distinct_card)
  with s show "length pp = card (increasing_participants cs als)" by simp
qed

lemma find_Some_holds: "find P xs = Some x \<Longrightarrow> P x \<and> x \<in> set xs"
  by (induction xs) (auto split: if_splits)

lemma find_as_filter: "find P xs = (case filter P xs of [] \<Rightarrow> None | x # rest \<Rightarrow> Some x)"
  by (induction xs) auto

lemma normalizeAddress_Nil [simp]: "normalizeAddress x = [] \<longleftrightarrow> x = []"
  by (simp add: normalizeAddress_def toLowerCase_def)

lemma activeDepositSubmitter_None:
  assumes "kind p = operate" "intent (payload_json p) = Some RPCAppStateIntent_Deposit"
      and "allocations (payload_json p) = Some als"
  shows "activeDepositSubmitter cs (Some p) = None \<longleftrightarrow> increasing_participants cs als = {}"
  using assms
  by (auto simp: activeDepositSubmitter_def increasing_participants_def find_None_iff
           split: option.splits dest: find_Some_holds)

lemma only_depositor_not_recoverable:
  "\<not> isRetryableSubmitError
       (ErrorObject ''Only the depositing participant should submit this deposit proposal.'')"
  "\<not> isMissingHomeChannelForDeposit
       (ErrorObject ''Only the depositing participant should submit this deposit proposal.'')"
  by (simp_all add: isRetryableSubmitError_def isMissingHomeChannelForDeposit_def
        thrown_message_def toLowerCase_def lower_char_def startsWith_def)

lemma singleton_list:
  assumes "distinct xs" and "set xs = {d}"
  shows "xs = [d]"
proof -
  from assms have "card (set xs) = 1" by simp
  with assms(1) have "length xs = 1" by (simp add: distinct_card)
  then obtain x where "xs = [x]" by (cases xs) auto
  with assms(2) show ?thesis by simp
qed

subsection \<open>The block of the deposit\<close>

lemma deposit_guard_wrong_wallet:
  assumes "allocations pl = Some als" and "increasing_participants cs als = {d}"
      and "normalizeAddress (str_of (walletAddress cs)) \<noteq> d"
  shows "deposit_guard cs room orc pl =
           (Inl (ErrorObject
              ''Only the depositing participant should submit this deposit proposal.''), [])"
proof -
  obtain pp pd where scan: "deposit_scan cs als = (pp, pd)" by (cases "deposit_scan cs als")
  from deposit_scan_participants(1,2)[OF scan] assms(2) have "pp = [d]"
    by (intro singleton_list) simp_all
  with scan assms(1,3) show ?thesis by (simp add: deposit_guard_def)
qed

lemma deposit_guard_depositor:
  assumes "allocations pl = Some als" and "increasing_participants cs als = {d}"
      and "normalizeAddress (str_of (walletAddress cs)) = d"
  shows "\<exists>al. find (increases cs) als = Some al \<and>
              deposit_guard cs room orc pl = ensureWalletCanSubmitSessionDeposit cs orc (asset al)"
proof -
  obtain pp pd where scan: "deposit_scan cs als = (pp, pd)" by (cases "deposit_scan cs als")
  note facts = deposit_scan_participants[OF scan]
  from facts(1,2) assms(2) have pp: "pp = [d]"
    by (intro singleton_list) simp_all
  have "filter (increases cs) als \<noteq> []"
  proof
    assume "filter (increases cs) als = []"
    then have "increasing_participants cs als = {}"
      by (simp add: increasing_participants_def)
    with assms(2) show False by simp
  qed
  then obtain al rest where f: "filter (increases cs) als = al # rest"
    by (cases "filter (increases cs) als") auto
  then have fnd: "find (increases cs) als = Some al" by (simp add: find_as_filter)
  from f have "normalizeAddress (participant al) \<in> increasing_participants cs als"
    by (simp add: increasing_participants_def)
  with assms(2) have d: "normalizeAddress (participant al) = d" by simp
  from facts(4) f d have pd: "pd = (d, asset al) #
      map (\<lambda>a. (normalizeAddress (participant a), asset a)) rest" by simp
  have "deposit_guard cs room orc pl = ensureWalletCanSubmitSessionDeposit cs orc (asset al)"
    using scan assms(1,3) pp unfolding pd by (simp add: deposit_guard_def Let_def)
  with fnd show ?thesis by blast
qed

lemma deposit_guard_no_check:
  assumes "allocations pl = Some als" and "card (increasing_participants cs als) \<noteq> 1"
  shows "deposit_guard cs room orc pl = (Inr (), [])"
proof -
  obtain pp pd where scan: "deposit_scan cs als = (pp, pd)" by (cases "deposit_scan cs als")
  from deposit_scan_participants(3)[OF scan] assms(2) have "length pp \<noteq> 1" by simp
  with scan assms(1) show ?thesis
    by (cases pp; cases "tl pp") (auto simp: deposit_guard_def)
qed

lemma ensure_with_wallet:
  assumes "client cs" and "\<not> falsy (walletAddress cs)"
  shows "snd (ensureWalletCanSubmitSessionDeposit cs orc a) = [GetLatestState a]"
    and "getLatestState orc = Inr hc \<Longrightarrow> \<not> falsy hc \<Longrightarrow>
         fst (ensureWalletCanSubmitSessionDeposit cs orc a) = Inr ()"
  using assms by (simp_all add: ensureWalletCanSubmitSessionDeposit_def Let_def)

subsection \<open>The runs of submitProposal\<close>

text \<open>Without the client, a wallet or an active room the callback returns at once.\<close>

lemma submitProposal_returns_at_once:
  assumes "\<not> client cs \<or> falsy (walletAddress cs) \<or> activeRoom cs = None"
  shows "submitProposal ext cs orc s p = \<lparr>run_store = s, run_message = None, run_actions = []\<rparr>"
  using assms by (auto simp: submitProposal_def split: option.splits)

lemma submit_try_actions:
  assumes "operate_deposit_block cs room orc p = (r, acts)"
  shows "\<exists>more. snd (snd (submit_try ext cs room orc s p)) = acts @ more \<and>
                (r = Inr () \<longrightarrow> (\<exists>rest. more = SessionServiceCall (kind p) # rest))"
proof (cases r)
  case (Inl e)
  with assms show ?thesis by (simp add: submit_try_def)
next
  case (Inr u)
  with assms show ?thesis
    by (auto simp: submit_try_def Let_def
             split: sum.splits prod.splits option.splits ApiError.splits)
qed

lemma submit_try_thrown_in_block:
  assumes "operate_deposit_block cs room orc p = (Inl e, acts)"
  shows "submit_try ext cs room orc s p = (Inl e, s, acts)"
  using assms by (simp add: submit_try_def)

lemma submitProposal_actions:
  assumes "client cs" and "\<not> falsy (walletAddress cs)" and "activeRoom cs = Some room"
      and "signatures_json p \<noteq> []"
  shows "\<exists>more. run_actions (submitProposal ext cs orc s p) =
                  snd (snd (submit_try ext cs room orc s p)) @ more"
proof -
  obtain r s1 acts where t: "submit_try ext cs room orc s p = (r, s1, acts)"
    by (cases "submit_try ext cs room orc s p") auto
  show ?thesis
  proof (cases r)
    case (Inl e)
    with t assms show ?thesis by (simp add: submitProposal_def Let_def)
  next
    case (Inr u)
    with t assms show ?thesis by (simp add: submitProposal_def Let_def)
  qed
qed

lemma submitProposal_action_prefix:
  assumes "client cs" and "\<not> falsy (walletAddress cs)" and "activeRoom cs = Some room"
      and "signatures_json p \<noteq> []"
      and "operate_deposit_block cs room orc p = (r, acts)"
  shows "\<exists>more. run_actions (submitProposal ext cs orc s p) = acts @ more \<and>
                (r = Inr () \<longrightarrow> (\<exists>rest. more = SessionServiceCall (kind p) # rest))"
proof -
  from submit_try_actions[OF assms(5), of ext s] obtain m1
    where m1: "snd (snd (submit_try ext cs room orc s p)) = acts @ m1"
      and r: "r = Inr () \<longrightarrow> (\<exists>rest. m1 = SessionServiceCall (kind p) # rest)" by blast
  from submitProposal_actions[OF assms(1-4), of ext orc s] obtain m2
    where "run_actions (submitProposal ext cs orc s p) =
             snd (snd (submit_try ext cs room orc s p)) @ m2" by blast
  with m1 have "run_actions (submitProposal ext cs orc s p) = acts @ (m1 @ m2)" by simp
  moreover from r have "r = Inr () \<longrightarrow> (\<exists>rest. m1 @ m2 = SessionServiceCall (kind p) # rest)"
    by auto
  ultimately show ?thesis by blast
qed



subsection \<open>The example deposit\<close>

lemma ex_base [simp]:
  "getRoomSessionAllocations (ex_deposit_client w als) = [ex_alloc ''0xaa'' 3, ex_alloc ''0xbb'' 4]"
  by (simp add: getRoomSessionAllocations_def ex_deposit_client_def ex_alloc_def Let_def
        toLowerCase_def lower_char_def)

lemma ex_keys [simp]:
  "allocation_key (ex_alloc ''0xaa'' n) = ''0xaa::usdc''"
  "allocation_key (ex_alloc ''0xbb'' n) = ''0xbb::usdc''"
  by (simp_all add: allocation_key_def ex_alloc_def toLowerCase_def lower_char_def)

lemma ex_increases [simp]:
  "increases (ex_deposit_client w als) (ex_alloc ''0xaa'' n) \<longleftrightarrow> 3 < n"
  "increases (ex_deposit_client w als) (ex_alloc ''0xbb'' n) \<longleftrightarrow> 4 < n"
  by (simp_all add: increases_def baseByParticipant_def) (simp_all add: ex_alloc_def)

lemma ex_alloc_participant [simp]: "participant (ex_alloc w n) = w" "asset (ex_alloc w n) = ''usdc''"
  by (simp_all add: ex_alloc_def)

lemma ex_scan_two:
  "deposit_scan (ex_deposit_client w als) [ex_alloc ''0xaa'' 5, ex_alloc ''0xbb'' 7]
     = ([''0xaa'', ''0xbb''], [(''0xaa'', ''usdc''), (''0xbb'', ''usdc'')])"
  by (simp add: deposit_scan_def set_add_def Let_def)

lemma ex_scan_one:
  "deposit_scan (ex_deposit_client w als) [ex_alloc ''0xaa'' 5, ex_alloc ''0xbb'' 4]
     = ([''0xaa''], [(''0xaa'', ''usdc'')])"
  by (simp add: deposit_scan_def set_add_def Let_def)

lemma ex_deposit_fields [simp]:
  "ident (ex_deposit_proposal als) = ''p1''" "kind (ex_deposit_proposal als) = operate"
  "intent (payload_json (ex_deposit_proposal als)) = Some RPCAppStateIntent_Deposit"
  "allocations (payload_json (ex_deposit_proposal als)) = Some als"
  "signatures_json (ex_deposit_proposal als) = [(''0xaa'', ''0xaa''), (''0xbb'', ''0xbb'')]"
  "status (ex_deposit_proposal als) = ready" "room_id (ex_deposit_proposal als) = ''r1''"
  "expires_at (ex_deposit_proposal als) = 1000"
  by (simp_all add: ex_deposit_proposal_def RPCAppStateIntent_Deposit_def)

lemma ex_deposit_select [simp]:
  "select_proposal (ex_deposit_store als) ''p1'' = Some (ex_deposit_proposal als)"
  "select_room (ex_deposit_store als) ''r1'' = Some ex_room"
  by (simp_all add: select_proposal_def select_room_def ex_deposit_store_def)

lemma ex_client_fields [simp]:
  "walletAddress (ex_deposit_client w als) = Some w"
  "activeRoom (ex_deposit_client w als) = Some ex_room" "client (ex_deposit_client w als)"
  by (simp_all add: ex_deposit_client_def)

lemma ex_oracle_fields [simp]:
  "session_service (ex_oracle answer) = answer" "getLatestState (ex_oracle answer) = Inr (Some ''0xc1'')"
  "refresh (ex_oracle answer) = None"
  "env_submitted (ex_oracle answer) = \<lparr>submit_now = 10, submit_event_uuid = ''e1''\<rparr>"
  "env_failed (ex_oracle answer) = \<lparr>submit_now = 20, submit_event_uuid = ''e2''\<rparr>"
  by (simp_all add: ex_oracle_def)

lemma ex_submit_ok:
  "POST_submit ex_ext \<lparr>submit_now = 10, submit_event_uuid = ''e1''\<rparr> (ex_deposit_store als) ''p1''
     \<lparr>submit_wallet = Some ''0xAA'', submit_outcome = Some ''submitted'',
      submit_sdkResult = Some ''{}'', submit_appSessionId = None, submit_error = None\<rparr>
   = (Inr ((ex_deposit_proposal als)\<lparr>status := submitted, sdk_result_json := Some (SdkObject ''{}'')\<rparr>),
      \<lparr>rooms = [ex_room],
       proposals = [(ex_deposit_proposal als)\<lparr>status := submitted,
                                              sdk_result_json := Some (SdkObject ''{}'')\<rparr>],
       events = [\<lparr>event_ident = ''e1'', event_room_id = ''r1'', proposal_id = Some ''p1'',
                  actor = ''0xaa'', event_type = ''proposal_submitted'',
                  event_payload = ProposalApplied operate submitted (SdkObject ''{}''),
                  event_created_at = 10\<rparr>]\<rparr>)"
  by (simp add: POST_submit_def falsy_def str_of_def startsWith_def Let_def)
     (simp add: update_proposal_def select_proposal_def ex_deposit_store_def insert_event_def)

lemma ex_norm_upper [simp]: "normalizeAddress ''0xBB'' = ''0xbb''"
  by (simp add: normalizeAddress_def toLowerCase_def lower_char_def)


lemma ex_errors:
  "isRetryableSubmitError (ErrorObject ''WS closed'')"
  "\<not> isRetryableSubmitError (ErrorObject ''no channel exists for asset usdc'')"
  "isMissingHomeChannelForDeposit (ErrorObject ''no channel exists for asset usdc'')"
  "\<not> isRetryableSubmitError (ErrorObject ''allowance too low'')"
  "\<not> isMissingHomeChannelForDeposit (ErrorObject ''allowance too low'')"
  "\<not> isRetryableSubmitError (ErrorObject ''Failed to fetch rooms'')"
  "\<not> isMissingHomeChannelForDeposit (ErrorObject ''Failed to fetch rooms'')"
  by (simp_all add: isRetryableSubmitError_def isMissingHomeChannelForDeposit_def
        thrown_message_def toLowerCase_def lower_char_def startsWith_def)

lemma ex_submit_failed_after_ok:
  "map status (proposals (snd (POST_submit ex_ext \<lparr>submit_now = 20, submit_event_uuid = ''e2''\<rparr>
      (snd (POST_submit ex_ext \<lparr>submit_now = 10, submit_event_uuid = ''e1''\<rparr>
             (ex_deposit_store als) ''p1''
             \<lparr>submit_wallet = Some ''0xAA'', submit_outcome = Some ''submitted'',
              submit_sdkResult = Some ''{}'', submit_appSessionId = None, submit_error = None\<rparr>))
      ''p1''
      \<lparr>submit_wallet = Some ''0xAA'', submit_outcome = Some ''failed'',
       submit_sdkResult = None, submit_appSessionId = None,
       submit_error = Some ''Failed to fetch rooms''\<rparr>))) = [failed]"
  unfolding ex_submit_ok
  by (simp add: POST_submit_def falsy_def str_of_def startsWith_def Let_def select_proposal_def
        select_room_def update_proposal_def insert_event_def)

text \<open>
  The client itself sends the submit route the outcome failed for a proposal that is
  already submitted: the session service and the report succeed, the refresh after them
  throws, and the \<open>catch\<close> block reports a failure.
\<close>

lemma client_fails_a_submitted_proposal:
  "map status (proposals (run_store (submitProposal ex_ext
       (ex_deposit_client ''0xAA'' [ex_alloc ''0xaa'' 5, ex_alloc ''0xbb'' 4])
       ((ex_oracle (Inr \<lparr>sdk_result = ''{}'', sdk_appSessionId = None\<rparr>))
          \<lparr>refresh := Some (ErrorObject ''Failed to fetch rooms'')\<rparr>)
       (ex_deposit_store [ex_alloc ''0xaa'' 5, ex_alloc ''0xbb'' 4])
       (ex_deposit_proposal [ex_alloc ''0xaa'' 5, ex_alloc ''0xbb'' 4])))) = [failed]"
proof -
  have blk: "operate_deposit_block (ex_deposit_client ''0xAA'' [ex_alloc ''0xaa'' 5, ex_alloc ''0xbb'' 4])
       ex_room ((ex_oracle (Inr \<lparr>sdk_result = ''{}'', sdk_appSessionId = None\<rparr>))
          \<lparr>refresh := Some (ErrorObject ''Failed to fetch rooms'')\<rparr>)
       (ex_deposit_proposal [ex_alloc ''0xaa'' 5, ex_alloc ''0xbb'' 4])
     = (Inr (), [GetLatestState ''usdc''])"
    by (simp add: operate_deposit_block_def deposit_guard_def ex_scan_one
        ensureWalletCanSubmitSessionDeposit_def falsy_def str_of_def Let_def)
  show ?thesis
    using ex_submit_failed_after_ok [of "[ex_alloc ''0xaa'' 5, ex_alloc ''0xbb'' 4]"]
    by (simp add: submitProposal_def submit_try_def blk ex_errors ex_submit_ok Let_def
          reported_error_def falsy_def)
qed

subsection \<open>Errors of the session service\<close>




subsection \<open>Who submits a deposit\<close>

lemma canSubmit_deposit:
  assumes "\<not> falsy (walletAddress cs)" and "kind p = operate"
      and "intent (payload_json p) = Some RPCAppStateIntent_Deposit"
  shows "canSubmitActiveProposal cs (Some p) \<longleftrightarrow>
           status p = ready \<and>
           activeDepositSubmitter cs (Some p) = Some (normalizeAddress (str_of (walletAddress cs)))"
proof -
  from assms(1) have "str_of (walletAddress cs) \<noteq> []"
    by (cases "walletAddress cs") (auto simp: falsy_def str_of_def)
  then have "normalizeAddress (str_of (walletAddress cs)) \<noteq> []" by simp
  then show ?thesis
    using assms
    by (auto simp: canSubmitActiveProposal_def activeProposalLabel_def split: option.splits)
qed

text \<open>
  Claim C6, as the code has it, for an operate proposal with signatures whose intent is
  the deposit, in a component with its client, a connected wallet and an active room.
  When exactly one participant \<open>d\<close> has an allocation that increases and the wallet is
  not \<open>d\<close>, \<open>submitProposal\<close> throws before it calls the session service: its message is
  that only the depositing participant should submit, and its only action is the report
  of a failure. When the wallet is \<open>d\<close>, the first action of \<open>submitProposal\<close> is
  \<open>getLatestState\<close> for the asset of the first allocation that increases, and the call
  of the session service follows when the wallet has a home channel. When the number of
  participants whose allocation increases is not one (none, or more than one), the block
  checks nothing and throws nothing, and the first action of \<open>submitProposal\<close> is the
  call of the session service. \<open>activeDepositSubmitter\<close> is the participant of the first
  allocation that increases, and is null exactly when none increases. The button is
  enabled exactly when the proposal is ready and \<open>activeDepositSubmitter\<close> is the
  wallet; so it is disabled when no allocation increases.
\<close>

theorem deposit_submitter_check:
  assumes ready: "client cs" "\<not> falsy (walletAddress cs)" "activeRoom cs = Some croom"
      and sigs: "signatures_json p \<noteq> []"
      and dep: "kind p = operate" "intent (payload_json p) = Some RPCAppStateIntent_Deposit"
               "allocations (payload_json p) = Some als"
  shows "(increasing_participants cs als = {d} \<and>
          normalizeAddress (str_of (walletAddress cs)) \<noteq> d \<longrightarrow>
            run_message (submitProposal ext cs orc s p) =
              Some ''Only the depositing participant should submit this deposit proposal.'' \<and>
            run_actions (submitProposal ext cs orc s p) = [Report ''failed''])
       \<and> (increasing_participants cs als = {d} \<and>
          normalizeAddress (str_of (walletAddress cs)) = d \<longrightarrow>
            (\<exists>al. find (increases cs) als = Some al \<and>
                  take 1 (run_actions (submitProposal ext cs orc s p)) =
                    [GetLatestState (asset al)] \<and>
                  (\<forall>hc. getLatestState orc = Inr hc \<and> \<not> falsy hc \<longrightarrow>
                     take 2 (run_actions (submitProposal ext cs orc s p)) =
                       [GetLatestState (asset al), SessionServiceCall operate])))
       \<and> (card (increasing_participants cs als) \<noteq> 1 \<longrightarrow>
            operate_deposit_block cs croom orc p = (Inr (), []) \<and>
            take 1 (run_actions (submitProposal ext cs orc s p)) = [SessionServiceCall operate])
       \<and> activeDepositSubmitter cs (Some p) =
            (case find (increases cs) als of
               None \<Rightarrow> None
             | Some a \<Rightarrow> Some (normalizeAddress (participant a)))
       \<and> (activeDepositSubmitter cs (Some p) = None \<longleftrightarrow> increasing_participants cs als = {})
       \<and> (canSubmitActiveProposal cs (Some p) \<longleftrightarrow>
            status p = ready \<and>
            activeDepositSubmitter cs (Some p) =
              Some (normalizeAddress (str_of (walletAddress cs))))
       \<and> (increasing_participants cs als = {} \<longrightarrow> \<not> canSubmitActiveProposal cs (Some p))"
proof -
  have blk: "operate_deposit_block cs croom orc p = deposit_guard cs croom orc (payload_json p)"
    using dep(1,2) by (simp add: operate_deposit_block_def)
  have a: "run_message (submitProposal ext cs orc s p) =
              Some ''Only the depositing participant should submit this deposit proposal.'' \<and>
            run_actions (submitProposal ext cs orc s p) = [Report ''failed'']"
    if "increasing_participants cs als = {d}"
       "normalizeAddress (str_of (walletAddress cs)) \<noteq> d"
  proof -
    have "submit_try ext cs croom orc s p =
            (Inl (ErrorObject
               ''Only the depositing participant should submit this deposit proposal.''), s, [])"
      by (rule submit_try_thrown_in_block)
         (simp add: blk deposit_guard_wrong_wallet[OF dep(3) that])
    then show ?thesis
      using sigs ready only_depositor_not_recoverable
      by (simp add: submitProposal_def Let_def)
  qed
  have b: "\<exists>al. find (increases cs) als = Some al \<and>
                  take 1 (run_actions (submitProposal ext cs orc s p)) =
                    [GetLatestState (asset al)] \<and>
                  (\<forall>hc. getLatestState orc = Inr hc \<and> \<not> falsy hc \<longrightarrow>
                     take 2 (run_actions (submitProposal ext cs orc s p)) =
                       [GetLatestState (asset al), SessionServiceCall operate])"
    if "increasing_participants cs als = {d}"
       "normalizeAddress (str_of (walletAddress cs)) = d"
  proof -
    from deposit_guard_depositor[OF dep(3) that, of croom orc]
    obtain al where fnd: "find (increases cs) als = Some al"
      and g: "deposit_guard cs croom orc (payload_json p) =
                ensureWalletCanSubmitSessionDeposit cs orc (asset al)" by blast
    obtain r where r: "operate_deposit_block cs croom orc p = (r, [GetLatestState (asset al)])"
      using ensure_with_wallet(1)[OF ready(1,2), of orc "asset al"] blk g
      by (cases "ensureWalletCanSubmitSessionDeposit cs orc (asset al)") auto
    from submitProposal_action_prefix[OF ready sigs r, of ext s] obtain more
      where acts: "run_actions (submitProposal ext cs orc s p) = [GetLatestState (asset al)] @ more"
        and nxt: "r = Inr () \<longrightarrow> (\<exists>rest. more = SessionServiceCall (kind p) # rest)" by blast
    have one: "take 1 (run_actions (submitProposal ext cs orc s p)) = [GetLatestState (asset al)]"
      unfolding acts by simp
    have two: "take 2 (run_actions (submitProposal ext cs orc s p)) =
                 [GetLatestState (asset al), SessionServiceCall operate]"
      if "getLatestState orc = Inr hc \<and> \<not> falsy hc" for hc
    proof -
      from that ensure_with_wallet(2)[OF ready(1,2), of orc hc "asset al"]
      have "fst (ensureWalletCanSubmitSessionDeposit cs orc (asset al)) = Inr ()" by simp
      moreover from blk g r
      have "ensureWalletCanSubmitSessionDeposit cs orc (asset al) = (r, [GetLatestState (asset al)])"
        by simp
      ultimately have "r = Inr ()" by simp
      with nxt dep(1) obtain rest where "more = SessionServiceCall operate # rest" by auto
      then show ?thesis unfolding acts by simp
    qed
    from fnd one two show ?thesis by blast
  qed
  have c: "operate_deposit_block cs croom orc p = (Inr (), []) \<and>
            take 1 (run_actions (submitProposal ext cs orc s p)) = [SessionServiceCall operate]"
    if "card (increasing_participants cs als) \<noteq> 1"
  proof -
    have g: "operate_deposit_block cs croom orc p = (Inr (), [])"
      unfolding blk by (rule deposit_guard_no_check[OF dep(3) that])
    from submitProposal_action_prefix[OF ready sigs g, of ext s] dep(1)
    obtain rest where "run_actions (submitProposal ext cs orc s p)
                         = SessionServiceCall operate # rest" by auto
    with g show ?thesis by simp
  qed
  have d: "activeDepositSubmitter cs (Some p) =
            (case find (increases cs) als of
               None \<Rightarrow> None
             | Some a \<Rightarrow> Some (normalizeAddress (participant a)))"
    using dep by (simp add: activeDepositSubmitter_def)
  have e: "activeDepositSubmitter cs (Some p) = None \<longleftrightarrow> increasing_participants cs als = {}"
    by (rule activeDepositSubmitter_None[OF dep])
  have f: "canSubmitActiveProposal cs (Some p) \<longleftrightarrow>
            status p = ready \<and>
            activeDepositSubmitter cs (Some p) =
              Some (normalizeAddress (str_of (walletAddress cs)))"
    by (rule canSubmit_deposit[OF ready(2) dep(1,2)])
  have g: "\<not> canSubmitActiveProposal cs (Some p)" if "increasing_participants cs als = {}"
    using that e f by simp
  from a b c d e f g show ?thesis by blast
qed

lemma ex_scan_none:
  "deposit_scan (ex_deposit_client w als) [ex_alloc ''0xaa'' 3, ex_alloc ''0xbb'' 4] = ([], [])"
  by (simp add: deposit_scan_def set_add_def Let_def)

theorem deposit_submitter_check_witness:
  "increasing_participants (ex_deposit_client ''0xBB'' [ex_alloc ''0xaa'' 5, ex_alloc ''0xbb'' 4])
      [ex_alloc ''0xaa'' 5, ex_alloc ''0xbb'' 4] = {''0xaa''}
   \<and> run_message (submitProposal ex_ext
         (ex_deposit_client ''0xBB'' [ex_alloc ''0xaa'' 5, ex_alloc ''0xbb'' 4])
         (ex_oracle (Inr \<lparr>sdk_result = ''{}'', sdk_appSessionId = None\<rparr>))
         (ex_deposit_store [ex_alloc ''0xaa'' 5, ex_alloc ''0xbb'' 4])
         (ex_deposit_proposal [ex_alloc ''0xaa'' 5, ex_alloc ''0xbb'' 4]))
       = Some ''Only the depositing participant should submit this deposit proposal.''
   \<and> run_actions (submitProposal ex_ext
         (ex_deposit_client ''0xBB'' [ex_alloc ''0xaa'' 5, ex_alloc ''0xbb'' 4])
         (ex_oracle (Inr \<lparr>sdk_result = ''{}'', sdk_appSessionId = None\<rparr>))
         (ex_deposit_store [ex_alloc ''0xaa'' 5, ex_alloc ''0xbb'' 4])
         (ex_deposit_proposal [ex_alloc ''0xaa'' 5, ex_alloc ''0xbb'' 4]))
       = [Report ''failed'']
   \<and> take 2 (run_actions (submitProposal ex_ext
         (ex_deposit_client ''0xAA'' [ex_alloc ''0xaa'' 5, ex_alloc ''0xbb'' 4])
         (ex_oracle (Inr \<lparr>sdk_result = ''{}'', sdk_appSessionId = None\<rparr>))
         (ex_deposit_store [ex_alloc ''0xaa'' 5, ex_alloc ''0xbb'' 4])
         (ex_deposit_proposal [ex_alloc ''0xaa'' 5, ex_alloc ''0xbb'' 4])))
       = [GetLatestState ''usdc'', SessionServiceCall operate]
   \<and> canSubmitActiveProposal
         (ex_deposit_client ''0xAA'' [ex_alloc ''0xaa'' 5, ex_alloc ''0xbb'' 4])
         (Some (ex_deposit_proposal [ex_alloc ''0xaa'' 5, ex_alloc ''0xbb'' 4]))
   \<and> card (increasing_participants
              (ex_deposit_client ''0xAA'' [ex_alloc ''0xaa'' 5, ex_alloc ''0xbb'' 7])
              [ex_alloc ''0xaa'' 5, ex_alloc ''0xbb'' 7]) = 2
   \<and> take 1 (run_actions (submitProposal ex_ext
         (ex_deposit_client ''0xAA'' [ex_alloc ''0xaa'' 5, ex_alloc ''0xbb'' 7])
         (ex_oracle (Inr \<lparr>sdk_result = ''{}'', sdk_appSessionId = None\<rparr>))
         (ex_deposit_store [ex_alloc ''0xaa'' 5, ex_alloc ''0xbb'' 7])
         (ex_deposit_proposal [ex_alloc ''0xaa'' 5, ex_alloc ''0xbb'' 7])))
       = [SessionServiceCall operate]
   \<and> increasing_participants
         (ex_deposit_client ''0xAA'' [ex_alloc ''0xaa'' 3, ex_alloc ''0xbb'' 4])
         [ex_alloc ''0xaa'' 3, ex_alloc ''0xbb'' 4] = {}
   \<and> \<not> canSubmitActiveProposal
         (ex_deposit_client ''0xAA'' [ex_alloc ''0xaa'' 3, ex_alloc ''0xbb'' 4])
         (Some (ex_deposit_proposal [ex_alloc ''0xaa'' 3, ex_alloc ''0xbb'' 4]))"
proof -
  have one: "increasing_participants
               (ex_deposit_client ''0xBB'' [ex_alloc ''0xaa'' 5, ex_alloc ''0xbb'' 4])
               [ex_alloc ''0xaa'' 5, ex_alloc ''0xbb'' 4] = {''0xaa''}"
    using deposit_scan_participants(1)[OF ex_scan_one] by simp
  have own: "increasing_participants
               (ex_deposit_client ''0xAA'' [ex_alloc ''0xaa'' 5, ex_alloc ''0xbb'' 4])
               [ex_alloc ''0xaa'' 5, ex_alloc ''0xbb'' 4] = {''0xaa''}"
    using deposit_scan_participants(1)[OF ex_scan_one] by simp
  have two: "card (increasing_participants
              (ex_deposit_client ''0xAA'' [ex_alloc ''0xaa'' 5, ex_alloc ''0xbb'' 7])
              [ex_alloc ''0xaa'' 5, ex_alloc ''0xbb'' 7]) = 2"
    using deposit_scan_participants(3)[OF ex_scan_two] by simp
  have none: "increasing_participants
         (ex_deposit_client ''0xAA'' [ex_alloc ''0xaa'' 3, ex_alloc ''0xbb'' 4])
         [ex_alloc ''0xaa'' 3, ex_alloc ''0xbb'' 4] = {}"
    using deposit_scan_participants(1)[OF ex_scan_none] by simp
  show ?thesis
    using one own two none
      deposit_submitter_check [where p = "ex_deposit_proposal [ex_alloc ''0xaa'' 5, ex_alloc ''0xbb'' 4]"
        and als = "[ex_alloc ''0xaa'' 5, ex_alloc ''0xbb'' 4]" and d = "''0xaa''"
        and cs = "ex_deposit_client ''0xBB'' [ex_alloc ''0xaa'' 5, ex_alloc ''0xbb'' 4]"
        and croom = ex_room
        and ext = ex_ext and orc = "ex_oracle (Inr \<lparr>sdk_result = ''{}'', sdk_appSessionId = None\<rparr>)"
        and s = "ex_deposit_store [ex_alloc ''0xaa'' 5, ex_alloc ''0xbb'' 4]"]
      deposit_submitter_check [where p = "ex_deposit_proposal [ex_alloc ''0xaa'' 5, ex_alloc ''0xbb'' 4]"
        and als = "[ex_alloc ''0xaa'' 5, ex_alloc ''0xbb'' 4]" and d = "''0xaa''"
        and cs = "ex_deposit_client ''0xAA'' [ex_alloc ''0xaa'' 5, ex_alloc ''0xbb'' 4]"
        and croom = ex_room
        and ext = ex_ext and orc = "ex_oracle (Inr \<lparr>sdk_result = ''{}'', sdk_appSessionId = None\<rparr>)"
        and s = "ex_deposit_store [ex_alloc ''0xaa'' 5, ex_alloc ''0xbb'' 4]"]
      deposit_submitter_check [where p = "ex_deposit_proposal [ex_alloc ''0xaa'' 5, ex_alloc ''0xbb'' 7]"
        and als = "[ex_alloc ''0xaa'' 5, ex_alloc ''0xbb'' 7]" and d = "''0xaa''"
        and cs = "ex_deposit_client ''0xAA'' [ex_alloc ''0xaa'' 5, ex_alloc ''0xbb'' 7]"
        and croom = ex_room
        and ext = ex_ext and orc = "ex_oracle (Inr \<lparr>sdk_result = ''{}'', sdk_appSessionId = None\<rparr>)"
        and s = "ex_deposit_store [ex_alloc ''0xaa'' 5, ex_alloc ''0xbb'' 7]"]
      deposit_submitter_check [where p = "ex_deposit_proposal [ex_alloc ''0xaa'' 3, ex_alloc ''0xbb'' 4]"
        and als = "[ex_alloc ''0xaa'' 3, ex_alloc ''0xbb'' 4]" and d = "''0xaa''"
        and cs = "ex_deposit_client ''0xAA'' [ex_alloc ''0xaa'' 3, ex_alloc ''0xbb'' 4]"
        and croom = ex_room
        and ext = ex_ext and orc = "ex_oracle (Inr \<lparr>sdk_result = ''{}'', sdk_appSessionId = None\<rparr>)"
        and s = "ex_deposit_store [ex_alloc ''0xaa'' 3, ex_alloc ''0xbb'' 4]"]
    by (simp add: falsy_def str_of_def)
qed

text \<open>
  Claim C6 as stated: submission fails with an error when more than one participant's
  allocation increases. Here the allocations of both participants increase over the 3
  and 4 the session holds; the button is enabled for participant A, and
  \<open>submitProposal\<close> calls the session service, reports the outcome submitted and leaves
  the proposal submitted.
\<close>

theorem deposit_without_single_depositor_counterexample:
  "fst (deposit_scan (ex_deposit_client ''0xAA'' [ex_alloc ''0xaa'' 5, ex_alloc ''0xbb'' 7])
          [ex_alloc ''0xaa'' 5, ex_alloc ''0xbb'' 7]) = [''0xaa'', ''0xbb'']
   \<and> canSubmitActiveProposal (ex_deposit_client ''0xAA'' [ex_alloc ''0xaa'' 5, ex_alloc ''0xbb'' 7])
        (Some (ex_deposit_proposal [ex_alloc ''0xaa'' 5, ex_alloc ''0xbb'' 7]))
   \<and> submitProposal ex_ext (ex_deposit_client ''0xAA'' [ex_alloc ''0xaa'' 5, ex_alloc ''0xbb'' 7])
        (ex_oracle (Inr \<lparr>sdk_result = ''{}'', sdk_appSessionId = None\<rparr>))
        (ex_deposit_store [ex_alloc ''0xaa'' 5, ex_alloc ''0xbb'' 7])
        (ex_deposit_proposal [ex_alloc ''0xaa'' 5, ex_alloc ''0xbb'' 7])
      = \<lparr>run_store = snd (POST_submit ex_ext \<lparr>submit_now = 10, submit_event_uuid = ''e1''\<rparr>
             (ex_deposit_store [ex_alloc ''0xaa'' 5, ex_alloc ''0xbb'' 7]) ''p1''
             \<lparr>submit_wallet = Some ''0xAA'', submit_outcome = Some ''submitted'',
              submit_sdkResult = Some ''{}'', submit_appSessionId = None, submit_error = None\<rparr>),
          run_message = Some ''Proposal submitted successfully.'',
          run_actions = [SessionServiceCall operate, Report ''submitted'']\<rparr>
   \<and> map status (proposals (snd (POST_submit ex_ext \<lparr>submit_now = 10, submit_event_uuid = ''e1''\<rparr>
             (ex_deposit_store [ex_alloc ''0xaa'' 5, ex_alloc ''0xbb'' 7]) ''p1''
             \<lparr>submit_wallet = Some ''0xAA'', submit_outcome = Some ''submitted'',
              submit_sdkResult = Some ''{}'', submit_appSessionId = None, submit_error = None\<rparr>)))
      = [submitted]"
  by (simp add: ex_scan_two ex_submit_ok submitProposal_def submit_try_def operate_deposit_block_def
        deposit_guard_def canSubmitActiveProposal_def activeProposalLabel_def
        activeDepositSubmitter_def falsy_def str_of_def Let_def)

end
